theory Spec2Isabelle
  imports Complex_Main "HOL-Library.Multiset"
begin

section \<open>Data model of \<open>self-improvement-algorithms.py\<close>\<close>

text \<open>
  Python floats are modelled as \<open>real\<close>: the only float operations of the
  module are comparisons, \<open>min\<close>/\<open>max\<close>, a division by \<open>100.0\<close> and products of
  the constants \<open>0.3\<close>, \<open>0.6\<close> and \<open>1.0\<close>. The nine products take six values
  \<open>0.09 < 0.18 < 0.3 < 0.36 < 0.6 < 1.0\<close>, and two products that agree as reals
  are the same product up to commutation, so ordering and ties are those of the reals.
\<close>

datatype ImprovementType =
  PERFORMANCE | ACCURACY | EFFICIENCY | COST | RELIABILITY | SCALABILITY

datatype LearningMode =
  SUPERVISED | UNSUPERVISED | REINFORCEMENT | TRANSFER | FEDERATED

text \<open>
  Values of type \<open>Any\<close> (pattern payloads, training data): the Python values whose
  truth value, \<open>isinstance(_, list)\<close> and \<open>len\<close> the module looks at.
\<close>

datatype pyval =
    PNone
  | PBool bool
  | PInt int
  | PFloat real
  | PStr string
  | PList "pyval list"
  | PTuple "pyval list"
  | PDict "(string \<times> pyval) list"

text \<open>Python's truth value testing, as used by \<open>not data\<close>.\<close>

fun truthy :: "pyval \<Rightarrow> bool" where
  "truthy PNone = False"
| "truthy (PBool b) = b"
| "truthy (PInt i) = (i \<noteq> 0)"
| "truthy (PFloat x) = (x \<noteq> 0)"
| "truthy (PStr s) = (s \<noteq> [])"
| "truthy (PList xs) = (xs \<noteq> [])"
| "truthy (PTuple xs) = (xs \<noteq> [])"
| "truthy (PDict kvs) = (kvs \<noteq> [])"

record LearningOutcome =
  project_id :: string
  outcome_type :: string
  success_score :: real
  completion_time :: real
  resource_utilization :: "string \<rightharpoonup> real"
  quality_metrics :: "string \<rightharpoonup> real"
  lessons_learned :: "string list"
  patterns_identified :: "pyval list"
  improvement_suggestions :: "string list"
  timestamp :: real

record SystemOptimization =
  optimization_type :: ImprovementType
  component :: string
  current_value :: real
  target_value :: real
  improvement_percentage :: real
  implementation_effort :: string
  expected_impact :: string
  risk_level :: string
  implementation_steps :: "string list"
  validation_criteria :: "string list"

text \<open>
  A pattern is the dictionary \<open>{'type': .., 'data': .., 'confidence': ..}\<close> built by
  \<open>analyze_patterns\<close> and read by \<open>generate_improvements\<close>.
\<close>

record pattern =
  pattern_type :: string
  pattern_data :: pyval
  confidence :: real

text \<open>
  The configuration dictionary, with the keys of \<open>SELF_IMPROVEMENT_CONFIG\<close>; a key
  that is absent from the dictionary is \<open>None\<close>.
\<close>

record config =
  learning_interval :: "real option"
  confidence_threshold :: "real option"
  auto_improvement_enabled :: "bool option"
  max_concurrent_experiments :: "int option"
  safety_checks_enabled :: "bool option"
  rollback_on_failure :: "bool option"
  learning_modes :: "LearningMode list option"
  optimization_targets :: "ImprovementType list option"

definition SELF_IMPROVEMENT_CONFIG :: config where
  "SELF_IMPROVEMENT_CONFIG =
     \<lparr> learning_interval = Some 300,
       confidence_threshold = Some 0.7,
       auto_improvement_enabled = Some True,
       max_concurrent_experiments = Some 5,
       safety_checks_enabled = Some True,
       rollback_on_failure = Some True,
       learning_modes = Some [SUPERVISED, UNSUPERVISED, REINFORCEMENT],
       optimization_targets = Some [PERFORMANCE, EFFICIENCY, RELIABILITY] \<rparr>"

section \<open>Helper methods\<close>

text \<open>
  \<open>calculate_confidence\<close>: \<open>if not data: return 0.0\<close>, then
  \<open>sample_size = len(data) if isinstance(data, list) else 1\<close> and
  \<open>min(1.0, sample_size / 100.0)\<close>.
\<close>

definition calculate_confidence :: "pyval \<Rightarrow> real" where
  "calculate_confidence data =
     (if \<not> truthy data then 0.0
      else (let sample_size = (case data of PList xs \<Rightarrow> length xs | _ \<Rightarrow> 1)
            in min 1.0 (real sample_size / 100.0)))"

text \<open>\<open>dict.get(key, default)\<close> on a dictionary literal.\<close>

definition dict_get :: "(string \<times> real) list \<Rightarrow> string \<Rightarrow> real \<Rightarrow> real" where
  "dict_get d k dflt = (case map_of d k of None \<Rightarrow> dflt | Some v \<Rightarrow> v)"

definition impact_score :: "string \<Rightarrow> real" where
  "impact_score impact =
     dict_get [(''low'', 0.3), (''medium'', 0.6), (''high'', 1.0)] impact 0.0"

definition feasibility_score :: "string \<Rightarrow> real" where
  "feasibility_score effort =
     dict_get [(''low'', 1.0), (''medium'', 0.6), (''high'', 0.3)] effort 0.0"

text \<open>
  The sample size in the words of the specification: a list's length, or 1 for a
  payload that is not a list.
\<close>

definition spec_sample_size :: "pyval \<Rightarrow> nat" where
  "spec_sample_size data = (case data of PList xs \<Rightarrow> length xs | _ \<Rightarrow> 1)"

section \<open>Effects: exceptions, the outside world and the trace\<close>

text \<open>
  An exception value is either an instance of Python's class \<open>Exception\<close>, carrying
  the text of \<open>str(e)\<close>, or an instance of \<open>BaseException\<close> outside \<open>Exception\<close>
  (\<open>KeyboardInterrupt\<close>, \<open>SystemExit\<close>, \<open>asyncio.CancelledError\<close>). A handler
  \<open>except Exception as e\<close> catches the first kind only.
\<close>

datatype exn = Exception string | BaseOnly string

text \<open>
  What the engine does to its surroundings, in order: log records, sleeps, and calls
  of collaborators that the module does not define (the database connection and the
  methods of \<open>self\<close> without a body in the file). \<open>CallOn\<close> is such a call with
  an improvement proposal as its argument.
\<close>

datatype event =
    LogInfo string
  | LogError string
  | Sleep real
  | Call string
  | CallOn string SystemOptimization

record 'w state =
  world :: 'w
  trace :: "event list"

type_synonym ('w, 'a) action = "'w state \<Rightarrow> (exn + 'a) \<times> 'w state"

text \<open>A collaborator acts on the outside world \<open>'w\<close> and returns or raises.\<close>

type_synonym ('w, 'a) extern = "'w \<Rightarrow> (exn + 'a) \<times> 'w"

definition ret :: "'a \<Rightarrow> ('w, 'a) action" where
  "ret v st = (Inr v, st)"

definition raise :: "exn \<Rightarrow> ('w, 'a) action" where
  "raise e st = (Inl e, st)"

text \<open>Sequencing: an exception of the first statement skips the rest.\<close>

definition bind_a :: "('w, 'a) action \<Rightarrow> ('a \<Rightarrow> ('w, 'b) action) \<Rightarrow> ('w, 'b) action" where
  "bind_a m f st =
     (case m st of
        (Inl e, st') \<Rightarrow> (Inl e, st')
      | (Inr v, st') \<Rightarrow> f v st')"

text \<open>\<open>try: body  except Exception as e: handler(str(e))\<close>.\<close>

definition try_except :: "('w, 'a) action \<Rightarrow> (string \<Rightarrow> ('w, 'a) action) \<Rightarrow> ('w, 'a) action" where
  "try_except body handler st =
     (case body st of
        (Inl (Exception msg), st') \<Rightarrow> handler msg st'
      | (Inl (BaseOnly msg), st') \<Rightarrow> (Inl (BaseOnly msg), st')
      | (Inr v, st') \<Rightarrow> (Inr v, st'))"

definition emit :: "event \<Rightarrow> ('w, unit) action" where
  "emit ev st = (Inr (), st\<lparr>trace := trace st @ [ev]\<rparr>)"

definition logger_info :: "string \<Rightarrow> ('w, unit) action" where
  "logger_info msg = emit (LogInfo msg)"

definition logger_error :: "string \<Rightarrow> ('w, unit) action" where
  "logger_error msg = emit (LogError msg)"

definition asyncio_sleep :: "real \<Rightarrow> ('w, unit) action" where
  "asyncio_sleep delay = emit (Sleep delay)"

text \<open>Calling a collaborator: the call is noted in the trace, then it runs.\<close>

definition call :: "event \<Rightarrow> ('w, 'a) extern \<Rightarrow> ('w, 'a) action" where
  "call ev f st =
     (case f (world st) of
        (r, w') \<Rightarrow> (r, st\<lparr>world := w', trace := trace st @ [ev]\<rparr>))"

section \<open>The engine and its collaborators\<close>

text \<open>Rows of the three SQL queries; a column that may be \<open>NULL\<close> is an option.\<close>

record outcome_row =
  row_project_id :: string
  row_outcome_type :: string
  row_impact_score :: "real option"
  row_completion_hours :: real
  row_lessons_learned :: "string list option"
  row_patterns_identified :: "pyval list option"
  row_recommendations :: "string list option"
  row_created_at :: real

record metric_row =
  metric_name :: string
  avg_value :: real

record quality_row =
  total_artifacts :: real
  avg_quality :: real

text \<open>
  \<open>self.db\<close>: \<open>fetch_all\<close> on the query of \<open>collect_learning_outcomes\<close>,
  \<open>fetch_all\<close> on the query of \<open>get_resource_metrics\<close> and \<open>fetch_one\<close> on the
  query of \<open>get_quality_metrics\<close> (the last two take the project id).
\<close>

record 'w database =
  fetch_all_outcomes :: "('w, outcome_row list) extern"
  fetch_all_metrics :: "string \<Rightarrow> ('w, metric_row list) extern"
  fetch_one_quality :: "string \<Rightarrow> ('w, quality_row option) extern"

text \<open>
  \<open>self\<close>: the attributes \<open>db\<close> and \<open>config\<close>, and the methods that
  \<open>SelfImprovementEngine\<close> calls but does not define, taken as parameters.
\<close>

record 'w SelfImprovementEngine =
  db :: "'w database"
  config :: config
  analyze_success_factors :: "LearningOutcome list \<Rightarrow> ('w, pyval) extern"
  analyze_failure_modes :: "LearningOutcome list \<Rightarrow> ('w, pyval) extern"
  analyze_resource_patterns :: "LearningOutcome list \<Rightarrow> ('w, pyval) extern"
  analyze_agent_patterns :: "LearningOutcome list \<Rightarrow> ('w, pyval) extern"
  analyze_temporal_patterns :: "LearningOutcome list \<Rightarrow> ('w, pyval) extern"
  generate_success_factor_improvements :: "pyval \<Rightarrow> ('w, SystemOptimization list) extern"
  generate_failure_mode_improvements :: "pyval \<Rightarrow> ('w, SystemOptimization list) extern"
  generate_resource_improvements :: "pyval \<Rightarrow> ('w, SystemOptimization list) extern"
  generate_agent_improvements :: "pyval \<Rightarrow> ('w, SystemOptimization list) extern"
  generate_temporal_improvements :: "pyval \<Rightarrow> ('w, SystemOptimization list) extern"
  implement_performance_improvement :: "SystemOptimization \<Rightarrow> ('w, unit) extern"
  implement_efficiency_improvement :: "SystemOptimization \<Rightarrow> ('w, unit) extern"
  implement_reliability_improvement :: "SystemOptimization \<Rightarrow> ('w, unit) extern"
  implement_scalability_improvement :: "SystemOptimization \<Rightarrow> ('w, unit) extern"
  record_improvement :: "SystemOptimization \<Rightarrow> ('w, unit) extern"
  prepare_training_data :: "LearningOutcome list \<Rightarrow> ('w, pyval) extern"
  update_success_prediction_model :: "pyval \<Rightarrow> ('w, unit) extern"
  update_resource_estimation_model :: "pyval \<Rightarrow> ('w, unit) extern"
  update_quality_prediction_model :: "pyval \<Rightarrow> ('w, unit) extern"
  update_agent_performance_model :: "pyval \<Rightarrow> ('w, unit) extern"
  system_health_check :: "('w, unit) extern"

section \<open>The stages of a cycle\<close>

text \<open>
  \<open>get_resource_metrics\<close>: the dictionary comprehension
  \<open>{row['metric_name']: row['avg_value'] for row in results}\<close>, where a later row
  overwrites an earlier one of the same name.
\<close>

definition get_resource_metrics ::
  "'w SelfImprovementEngine \<Rightarrow> string \<Rightarrow> ('w, string \<rightharpoonup> real) action" where
  "get_resource_metrics self pid =
     bind_a (call (Call ''db.fetch_all'') (fetch_all_metrics (db self) pid)) (\<lambda>results.
       ret (fold (\<lambda>row d. d(metric_name row \<mapsto> avg_value row)) results Map.empty))"

text \<open>
  \<open>get_quality_metrics\<close>: subscripting the result of \<open>fetch_one\<close> raises
  \<open>TypeError\<close> when there is no row.
\<close>

definition get_quality_metrics ::
  "'w SelfImprovementEngine \<Rightarrow> string \<Rightarrow> ('w, string \<rightharpoonup> real) action" where
  "get_quality_metrics self pid =
     bind_a (call (Call ''db.fetch_one'') (fetch_one_quality (db self) pid)) (\<lambda>result.
       case result of
         None \<Rightarrow> raise (Exception ''TypeError'')
       | Some row \<Rightarrow>
           ret [''total_artifacts'' \<mapsto> total_artifacts row,
                ''average_quality'' \<mapsto> avg_quality row])"

text \<open>\<open>value or []\<close> for a column that holds a list or \<open>NULL\<close>.\<close>

definition or_empty :: "'a list option \<Rightarrow> 'a list" where
  "or_empty v = (case v of None \<Rightarrow> [] | Some xs \<Rightarrow> xs)"

text \<open>
  The body of \<open>for row in results\<close> in \<open>collect_learning_outcomes\<close>, with the list
  \<open>outcomes\<close> built so far. \<open>min(1.0, None)\<close> raises \<open>TypeError\<close>.
\<close>

fun collect_rows ::
  "'w SelfImprovementEngine \<Rightarrow> outcome_row list \<Rightarrow> LearningOutcome list
     \<Rightarrow> ('w, LearningOutcome list) action" where
  "collect_rows self [] outcomes = ret outcomes"
| "collect_rows self (row # results) outcomes =
     bind_a (get_resource_metrics self (row_project_id row)) (\<lambda>resource_metrics.
     bind_a (get_quality_metrics self (row_project_id row)) (\<lambda>quality_metrics'.
       case row_impact_score row of
         None \<Rightarrow> raise (Exception ''TypeError'')
       | Some raw \<Rightarrow>
           collect_rows self results
             (outcomes @
               [\<lparr> project_id = row_project_id row,
                  outcome_type = row_outcome_type row,
                  success_score = max 0.0 (min 1.0 raw),
                  completion_time = row_completion_hours row,
                  resource_utilization = resource_metrics,
                  quality_metrics = quality_metrics',
                  lessons_learned = or_empty (row_lessons_learned row),
                  patterns_identified = or_empty (row_patterns_identified row),
                  improvement_suggestions = or_empty (row_recommendations row),
                  timestamp = row_created_at row \<rparr>])))"

definition collect_learning_outcomes ::
  "'w SelfImprovementEngine \<Rightarrow> ('w, LearningOutcome list) action" where
  "collect_learning_outcomes self =
     bind_a (call (Call ''db.fetch_all'') (fetch_all_outcomes (db self))) (\<lambda>results.
       collect_rows self results [])"

definition analyze_patterns ::
  "'w SelfImprovementEngine \<Rightarrow> LearningOutcome list \<Rightarrow> ('w, pattern list) action" where
  "analyze_patterns self outcomes =
     (if outcomes = [] then ret []
      else
        bind_a (call (Call ''analyze_success_factors'')
                  (analyze_success_factors self outcomes)) (\<lambda>success_factors.
        bind_a (call (Call ''analyze_failure_modes'')
                  (analyze_failure_modes self outcomes)) (\<lambda>failure_modes.
        bind_a (call (Call ''analyze_resource_patterns'')
                  (analyze_resource_patterns self outcomes)) (\<lambda>resource_patterns.
        bind_a (call (Call ''analyze_agent_patterns'')
                  (analyze_agent_patterns self outcomes)) (\<lambda>agent_patterns.
        bind_a (call (Call ''analyze_temporal_patterns'')
                  (analyze_temporal_patterns self outcomes)) (\<lambda>temporal_patterns.
          ret [ \<lparr> pattern_type = ''success_factors'', pattern_data = success_factors,
                   confidence = calculate_confidence success_factors \<rparr>,
                \<lparr> pattern_type = ''failure_modes'', pattern_data = failure_modes,
                   confidence = calculate_confidence failure_modes \<rparr>,
                \<lparr> pattern_type = ''resource_optimization'', pattern_data = resource_patterns,
                   confidence = calculate_confidence resource_patterns \<rparr>,
                \<lparr> pattern_type = ''agent_performance'', pattern_data = agent_patterns,
                   confidence = calculate_confidence agent_patterns \<rparr>,
                \<lparr> pattern_type = ''temporal_patterns'', pattern_data = temporal_patterns,
                   confidence = calculate_confidence temporal_patterns \<rparr> ]))))))"

text \<open>
  The loop \<open>for pattern in patterns\<close> of \<open>generate_improvements\<close>, with the list
  \<open>improvements\<close> built so far. The gate compares with the literal \<open>0.7\<close>;
  \<open>self.config\<close> is not read.
\<close>

fun generate_loop ::
  "'w SelfImprovementEngine \<Rightarrow> pattern list \<Rightarrow> SystemOptimization list
     \<Rightarrow> ('w, SystemOptimization list) action" where
  "generate_loop self [] improvements = ret improvements"
| "generate_loop self (pattern # patterns) improvements =
     (if confidence pattern < 0.7 then generate_loop self patterns improvements
      else
        if pattern_type pattern = ''success_factors'' then
          bind_a (call (Call ''generate_success_factor_improvements'')
                    (generate_success_factor_improvements self (pattern_data pattern)))
            (\<lambda>new. generate_loop self patterns (improvements @ new))
        else if pattern_type pattern = ''failure_modes'' then
          bind_a (call (Call ''generate_failure_mode_improvements'')
                    (generate_failure_mode_improvements self (pattern_data pattern)))
            (\<lambda>new. generate_loop self patterns (improvements @ new))
        else if pattern_type pattern = ''resource_optimization'' then
          bind_a (call (Call ''generate_resource_improvements'')
                    (generate_resource_improvements self (pattern_data pattern)))
            (\<lambda>new. generate_loop self patterns (improvements @ new))
        else if pattern_type pattern = ''agent_performance'' then
          bind_a (call (Call ''generate_agent_improvements'')
                    (generate_agent_improvements self (pattern_data pattern)))
            (\<lambda>new. generate_loop self patterns (improvements @ new))
        else if pattern_type pattern = ''temporal_patterns'' then
          bind_a (call (Call ''generate_temporal_improvements'')
                    (generate_temporal_improvements self (pattern_data pattern)))
            (\<lambda>new. generate_loop self patterns (improvements @ new))
        else generate_loop self patterns improvements)"

text \<open>The sort key of \<open>generate_improvements\<close>.\<close>

definition priority :: "SystemOptimization \<Rightarrow> real" where
  "priority x = impact_score (expected_impact x) * feasibility_score (implementation_effort x)"

text \<open>
  \<open>list.sort(key=.., reverse=True)\<close>: a stable sort into descending order of the
  key, elements of equal key keeping their order. It is the stable ascending sort
  on the negated key.
\<close>

definition sort_reverse :: "('a \<Rightarrow> real) \<Rightarrow> 'a list \<Rightarrow> 'a list" where
  "sort_reverse key xs = sort_key (\<lambda>x. - key x) xs"

definition generate_improvements ::
  "'w SelfImprovementEngine \<Rightarrow> pattern list \<Rightarrow> ('w, SystemOptimization list) action" where
  "generate_improvements self patterns =
     bind_a (generate_loop self patterns []) (\<lambda>improvements.
       ret (sort_reverse priority improvements))"

definition implement_improvement ::
  "'w SelfImprovementEngine \<Rightarrow> SystemOptimization \<Rightarrow> ('w, unit) action" where
  "implement_improvement self improvement =
     bind_a
       (if optimization_type improvement = PERFORMANCE then
          call (CallOn ''implement_performance_improvement'' improvement)
            (implement_performance_improvement self improvement)
        else if optimization_type improvement = EFFICIENCY then
          call (CallOn ''implement_efficiency_improvement'' improvement)
            (implement_efficiency_improvement self improvement)
        else if optimization_type improvement = RELIABILITY then
          call (CallOn ''implement_reliability_improvement'' improvement)
            (implement_reliability_improvement self improvement)
        else if optimization_type improvement = SCALABILITY then
          call (CallOn ''implement_scalability_improvement'' improvement)
            (implement_scalability_improvement self improvement)
        else ret ())
       (\<lambda>_. call (CallOn ''record_improvement'' improvement)
               (record_improvement self improvement))"

fun execute_safe_improvements ::
  "'w SelfImprovementEngine \<Rightarrow> SystemOptimization list \<Rightarrow> ('w, unit) action" where
  "execute_safe_improvements self [] = ret ()"
| "execute_safe_improvements self (improvement # improvements) =
     (if risk_level improvement = ''low'' \<and>
         implementation_effort improvement = ''low'' \<and>
         expected_impact improvement \<in> set [''medium'', ''high'']
      then
        bind_a
          (try_except
             (bind_a (implement_improvement self improvement) (\<lambda>_.
                logger_info (''Automatically implemented improvement: ''
                               @ component improvement)))
             (\<lambda>e. logger_error (''Failed to implement improvement ''
                                  @ component improvement @ '': '' @ e)))
          (\<lambda>_. execute_safe_improvements self improvements)
      else execute_safe_improvements self improvements)"

definition update_learning_models ::
  "'w SelfImprovementEngine \<Rightarrow> LearningOutcome list \<Rightarrow> ('w, unit) action" where
  "update_learning_models self outcomes =
     (if outcomes = [] then ret ()
      else
        bind_a (call (Call ''prepare_training_data'')
                  (prepare_training_data self outcomes)) (\<lambda>training_data.
        bind_a (call (Call ''update_success_prediction_model'')
                  (update_success_prediction_model self training_data)) (\<lambda>_.
        bind_a (call (Call ''update_resource_estimation_model'')
                  (update_resource_estimation_model self training_data)) (\<lambda>_.
        bind_a (call (Call ''update_quality_prediction_model'')
                  (update_quality_prediction_model self training_data)) (\<lambda>_.
          call (Call ''update_agent_performance_model'')
            (update_agent_performance_model self training_data))))))"

section \<open>The continuous learning loop\<close>

text \<open>\<open>self.config.get('learning_interval', 300)\<close>.\<close>

definition config_get_learning_interval :: "config \<Rightarrow> real" where
  "config_get_learning_interval c =
     (case learning_interval c of None \<Rightarrow> 300 | Some v \<Rightarrow> v)"

text \<open>The statements of the \<open>try\<close> block, one cycle from collection to the sleep.\<close>

definition cycle_body :: "'w SelfImprovementEngine \<Rightarrow> ('w, unit) action" where
  "cycle_body self =
     bind_a (collect_learning_outcomes self) (\<lambda>new_outcomes.
     bind_a (analyze_patterns self new_outcomes) (\<lambda>patterns.
     bind_a (generate_improvements self patterns) (\<lambda>recommendations.
     bind_a (execute_safe_improvements self recommendations) (\<lambda>_.
     bind_a (update_learning_models self new_outcomes) (\<lambda>_.
     bind_a (call (Call ''system_health_check'') (system_health_check self)) (\<lambda>_.
       asyncio_sleep (config_get_learning_interval (config self))))))))"

text \<open>One pass through the body of \<open>while True\<close>: the \<open>try\<close> block and its handler.\<close>

definition loop_iteration :: "'w SelfImprovementEngine \<Rightarrow> ('w, unit) action" where
  "loop_iteration self =
     try_except (cycle_body self)
       (\<lambda>e. bind_a (logger_error (''Error in continuous learning loop: '' @ e)) (\<lambda>_.
               asyncio_sleep 60))"

text \<open>
  \<open>while True\<close> has no \<open>break\<close> and no \<open>return\<close>: the loop ends only when an
  exception leaves an iteration. With \<open>n\<close> iterations of fuel the result is
  \<open>Some e\<close> when the exception \<open>e\<close> ended the loop within \<open>n\<close> iterations and
  \<open>None\<close> when the loop is still running after them.
\<close>

fun while_true ::
  "nat \<Rightarrow> 'w SelfImprovementEngine \<Rightarrow> 'w state \<Rightarrow> exn option \<times> 'w state" where
  "while_true 0 self st = (None, st)"
| "while_true (Suc n) self st =
     (case loop_iteration self st of
        (Inl e, st') \<Rightarrow> (Some e, st')
      | (Inr _, st') \<Rightarrow> while_true n self st')"

definition continuous_learning_loop ::
  "nat \<Rightarrow> 'w SelfImprovementEngine \<Rightarrow> 'w state \<Rightarrow> exn option \<times> 'w state" where
  "continuous_learning_loop n self st =
     (case logger_info ''Starting continuous learning loop'' st of
        (Inl e, st') \<Rightarrow> (Some e, st')
      | (Inr _, st') \<Rightarrow> while_true n self st')"

section \<open>Notions used to state the properties\<close>

text \<open>The events that a run from \<open>st\<close> to \<open>st'\<close> added to the trace.\<close>

definition new_events :: "'w state \<Rightarrow> 'w state \<Rightarrow> event list" where
  "new_events st st' = drop (length (trace st)) (trace st')"

text \<open>Every event that the action adds to the trace satisfies \<open>P\<close>.\<close>

definition emits :: "(event \<Rightarrow> bool) \<Rightarrow> ('w, 'a) action \<Rightarrow> bool" where
  "emits P m = (\<forall>st. \<exists>evs. trace (snd (m st)) = trace st @ evs \<and> list_all P evs)"

text \<open>
  Eligibility for autonomous application in the words of the specification: risk level
  low, implementation effort low, expected impact medium or high.
\<close>

definition spec_eligible :: "SystemOptimization \<Rightarrow> bool" where
  "spec_eligible p =
     (risk_level p = ''low'' \<and> implementation_effort p = ''low'' \<and>
      (expected_impact p = ''medium'' \<or> expected_impact p = ''high''))"

text \<open>
  An application of the proposal \<open>p\<close> was attempted: a collaborator (a category
  implementer or \<open>record_improvement\<close>) was called on it. Every run of
  \<open>implement_improvement\<close> starts with such a call.
\<close>

fun is_call_on :: "SystemOptimization \<Rightarrow> event \<Rightarrow> bool" where
  "is_call_on p (CallOn name q) = (q = p)"
| "is_call_on p _ = False"

definition attempted :: "SystemOptimization \<Rightarrow> event list \<Rightarrow> bool" where
  "attempted p evs = list_ex (is_call_on p) evs"

text \<open>The \<open>try\<close> statement of \<open>execute_safe_improvements\<close> for one improvement.\<close>

definition attempt_block :: "'w SelfImprovementEngine \<Rightarrow> SystemOptimization \<Rightarrow> ('w, unit) action" where
  "attempt_block self improvement =
     try_except
       (bind_a (implement_improvement self improvement) (\<lambda>_.
          logger_info (''Automatically implemented improvement: '' @ component improvement)))
       (\<lambda>e. logger_error (''Failed to implement improvement ''
                            @ component improvement @ '': '' @ e))"

text \<open>
  The clamp into \<open>[0, 1]\<close> in the words of the specification: a value above 1 becomes
  1.0, a value below 0 becomes 0.0, a value in the range is kept.
\<close>

definition spec_clamp :: "real \<Rightarrow> real" where
  "spec_clamp raw = (if 1 < raw then 1.0 else if raw < 0 then 0.0 else raw)"

text \<open>
  The outcome \<open>out\<close> was built from the row \<open>row\<close>: the row has a raw impact score,
  the outcome stores its clamped value, and both name the same project.
\<close>

definition stored_from :: "outcome_row \<Rightarrow> LearningOutcome \<Rightarrow> bool" where
  "stored_from row out =
     (case row_impact_score row of
        None \<Rightarrow> False
      | Some raw \<Rightarrow> success_score out = spec_clamp raw \<and> project_id out = row_project_id row)"

text \<open>The event is a sleep.\<close>

fun is_sleep :: "event \<Rightarrow> bool" where
  "is_sleep (Sleep d) = True"
| "is_sleep _ = False"

text \<open>The calls of the \<open>try\<close> block before its final sleep.\<close>

definition stages :: "'w SelfImprovementEngine \<Rightarrow> ('w, unit) action" where
  "stages self =
     bind_a (collect_learning_outcomes self) (\<lambda>new_outcomes.
     bind_a (analyze_patterns self new_outcomes) (\<lambda>patterns.
     bind_a (generate_improvements self patterns) (\<lambda>recommendations.
     bind_a (execute_safe_improvements self recommendations) (\<lambda>_.
     bind_a (update_learning_models self new_outcomes) (\<lambda>_.
       call (Call ''system_health_check'') (system_health_check self))))))"

section \<open>Concrete collaborators for the examples\<close>

text \<open>A collaborator that returns \<open>v\<close>, and one that raises \<open>e\<close>.\<close>

definition succeed :: "'a \<Rightarrow> ('w, 'a) extern" where
  "succeed v w = (Inr v, w)"

definition fail :: "exn \<Rightarrow> ('w, 'a) extern" where
  "fail e w = (Inl e, w)"

text \<open>
  An engine over a trivial outside world: the store is empty and every collaborator
  returns without a result.
\<close>

definition example_engine :: "unit SelfImprovementEngine" where
  "example_engine =
     \<lparr> db = \<lparr> fetch_all_outcomes = succeed [],
              fetch_all_metrics = (\<lambda>_. succeed []),
              fetch_one_quality = (\<lambda>_. succeed (Some \<lparr> total_artifacts = 0, avg_quality = 0.8 \<rparr>)) \<rparr>,
       config = SELF_IMPROVEMENT_CONFIG,
       analyze_success_factors = (\<lambda>_. succeed PNone),
       analyze_failure_modes = (\<lambda>_. succeed PNone),
       analyze_resource_patterns = (\<lambda>_. succeed PNone),
       analyze_agent_patterns = (\<lambda>_. succeed PNone),
       analyze_temporal_patterns = (\<lambda>_. succeed PNone),
       generate_success_factor_improvements = (\<lambda>_. succeed []),
       generate_failure_mode_improvements = (\<lambda>_. succeed []),
       generate_resource_improvements = (\<lambda>_. succeed []),
       generate_agent_improvements = (\<lambda>_. succeed []),
       generate_temporal_improvements = (\<lambda>_. succeed []),
       implement_performance_improvement = (\<lambda>_. succeed ()),
       implement_efficiency_improvement = (\<lambda>_. succeed ()),
       implement_reliability_improvement = (\<lambda>_. succeed ()),
       implement_scalability_improvement = (\<lambda>_. succeed ()),
       record_improvement = (\<lambda>_. succeed ()),
       prepare_training_data = (\<lambda>_. succeed PNone),
       update_success_prediction_model = (\<lambda>_. succeed ()),
       update_resource_estimation_model = (\<lambda>_. succeed ()),
       update_quality_prediction_model = (\<lambda>_. succeed ()),
       update_agent_performance_model = (\<lambda>_. succeed ()),
       system_health_check = succeed () \<rparr>"

definition proposal ::
  "ImprovementType \<Rightarrow> string \<Rightarrow> string \<Rightarrow> string \<Rightarrow> string \<Rightarrow> SystemOptimization" where
  "proposal ty target effort impact risk =
     \<lparr> optimization_type = ty, component = target, current_value = 0, target_value = 0,
       improvement_percentage = 0, implementation_effort = effort, expected_impact = impact,
       risk_level = risk, implementation_steps = [], validation_criteria = [] \<rparr>"

definition initial_state :: "unit state" where
  "initial_state = \<lparr> world = (), trace = [] \<rparr>"


text \<open>
  The same engine, except that the performance implementer raises on the proposal for
  the component \<open>pool\<close>.
\<close>

definition flaky_engine :: "unit SelfImprovementEngine" where
  "flaky_engine =
     example_engine\<lparr> implement_performance_improvement :=
       (\<lambda>p. if component p = ''pool'' then fail (Exception ''boom'') else succeed ()) \<rparr>"

text \<open>
  An engine whose success-factor generator proposes five changes; the last one carries
  an expected impact outside the three labels.
\<close>

definition ranking_engine :: "unit SelfImprovementEngine" where
  "ranking_engine =
     example_engine\<lparr> generate_success_factor_improvements :=
       (\<lambda>_. succeed
          [proposal PERFORMANCE ''queue'' ''medium'' ''medium'' ''low'',
           proposal EFFICIENCY ''batch'' ''low'' ''low'' ''low'',
           proposal PERFORMANCE ''cache'' ''low'' ''high'' ''low'',
           proposal RELIABILITY ''retry'' ''high'' ''high'' ''medium'',
           proposal COST ''billing'' ''low'' ''urgent'' ''low'']) \<rparr>"

text \<open>
  An engine configured with a confidence threshold of 0.9, whose success-factor
  generator proposes one change.
\<close>

definition strict_engine :: "unit SelfImprovementEngine" where
  "strict_engine =
     example_engine\<lparr> config := SELF_IMPROVEMENT_CONFIG\<lparr> confidence_threshold := Some 0.9 \<rparr>,
       generate_success_factor_improvements :=
         (\<lambda>_. succeed [proposal PERFORMANCE ''cache'' ''low'' ''high'' ''low'']) \<rparr>"

text \<open>The same engine with a store whose outcome query times out.\<close>

definition outage_engine :: "unit SelfImprovementEngine" where
  "outage_engine =
     example_engine\<lparr> db := (db example_engine)\<lparr> fetch_all_outcomes :=
       fail (Exception ''store timeout'') \<rparr> \<rparr>"

text \<open>
  A row of the outcome query, and an engine whose store returns three rows with raw
  impact scores 1.4, -0.2 and 0.5.
\<close>

definition outcome_row_of :: "string \<Rightarrow> real \<Rightarrow> outcome_row" where
  "outcome_row_of pid raw =
     \<lparr> row_project_id = pid, row_outcome_type = ''research'', row_impact_score = Some raw,
       row_completion_hours = 2, row_lessons_learned = None, row_patterns_identified = None,
       row_recommendations = None, row_created_at = 0 \<rparr>"

definition store_engine :: "unit SelfImprovementEngine" where
  "store_engine =
     example_engine\<lparr> db := (db example_engine)\<lparr> fetch_all_outcomes :=
       succeed [outcome_row_of ''p1'' 1.4, outcome_row_of ''p2'' (- 0.2),
                outcome_row_of ''p3'' 0.5] \<rparr> \<rparr>"

section \<open>Lemmas on the helper methods\<close>

lemma conf_eq: "calculate_confidence data =
     (if truthy data then min 1.0 (real (spec_sample_size data) / 100.0) else 0.0)"
  by (simp add: calculate_confidence_def spec_sample_size_def)

lemma conf_mono: "truthy b \<Longrightarrow> spec_sample_size a \<le> spec_sample_size b \<Longrightarrow> calculate_confidence a \<le> calculate_confidence b"
  by (simp add: conf_eq min_def divide_right_mono)

lemma big_truthy: "100 \<le> spec_sample_size data \<Longrightarrow> truthy data"
  by (cases data) (auto simp: spec_sample_size_def)

lemma conf_sat: "calculate_confidence data = 1.0 \<longleftrightarrow> 100 \<le> spec_sample_size data"
  using big_truthy[of data] by (auto simp: conf_eq min_def)

lemma scores_unknown: "label \<notin> {''low'', ''medium'', ''high''} \<Longrightarrow> impact_score label = 0.0 \<and> feasibility_score label = 0.0"
  by (simp add: impact_score_def feasibility_score_def dict_get_def)

lemma impact_pos: "label \<in> {''low'', ''medium'', ''high''} \<Longrightarrow> 0 < impact_score label"
  by (auto simp add: impact_score_def dict_get_def)

lemma feas_pos: "label \<in> {''low'', ''medium'', ''high''} \<Longrightarrow> 0 < feasibility_score label"
  by (auto simp add: feasibility_score_def dict_get_def)

lemma sorted_sort_reverse: "sorted_wrt (\<lambda>a b. key b \<le> key a) (sort_reverse key xs)"
proof -
  have "sorted (map (\<lambda>x. - key x) (sort_key (\<lambda>x. - key x) xs))" by (rule sorted_sort_key)
  then show ?thesis by (simp add: sort_reverse_def sorted_map)
qed 

lemma mset_sort_reverse: "mset (sort_reverse key xs) = mset xs"
  by (simp add: sort_reverse_def)

lemma stable_sort_reverse: "filter (\<lambda>x. key x = k) (sort_reverse key xs) = filter (\<lambda>x. key x = k) xs"
  using sort_key_stable[of "\<lambda>x. - key x" "- k" xs] by (simp add: sort_reverse_def)

lemma emitsD: "emits P m \<Longrightarrow> m st = (r, st') \<Longrightarrow> \<exists>evs. trace st' = trace st @ evs \<and> list_all P evs"
  unfolding emits_def by (metis snd_conv)

lemma emits_ret: "emits P (ret v)"
  by (simp add: emits_def ret_def)

lemma emits_raise: "emits P (raise e)"
  by (simp add: emits_def raise_def)

lemma emits_emit: "P ev \<Longrightarrow> emits P (emit ev)"
  by (simp add: emits_def emit_def)

lemma emits_call: "P ev \<Longrightarrow> emits P (call ev f)"
  by (simp add: emits_def call_def split: prod.splits)

lemma emits_bind:
  assumes "emits P m" and "\<And>v. emits P (f v)"
  shows "emits P (bind_a m f)"
  unfolding emits_def
proof
  fix st
  obtain r st1 where m: "m st = (r, st1)" by (cases "m st")
  from emitsD[OF assms(1) m] obtain e1 where e1: "trace st1 = trace st @ e1" "list_all P e1" by blast
  show "\<exists>evs. trace (snd (bind_a m f st)) = trace st @ evs \<and> list_all P evs"
  proof (cases r)
    case (Inl e)
    then show ?thesis using m e1 by (simp add: bind_a_def)
  next
    case (Inr v)
    obtain r2 st2 where f: "f v st1 = (r2, st2)" by (cases "f v st1")
    from emitsD[OF assms(2) f] obtain e2 where e2: "trace st2 = trace st1 @ e2" "list_all P e2" by blast
    have "trace st2 = trace st @ (e1 @ e2) \<and> list_all P (e1 @ e2)" using e1 e2 by simp
    then show ?thesis using m Inr f by (auto simp add: bind_a_def)
  qed
qed

lemma emits_try:
  assumes "emits P m" and "\<And>v. emits P (h v)"
  shows "emits P (try_except m h)"
  unfolding emits_def
proof
  fix st
  obtain r st1 where m: "m st = (r, st1)" by (cases "m st")
  from emitsD[OF assms(1) m] obtain e1 where e1: "trace st1 = trace st @ e1" "list_all P e1" by blast
  show "\<exists>evs. trace (snd (try_except m h st)) = trace st @ evs \<and> list_all P evs"
  proof (cases r)
    case (Inr v)
    then show ?thesis using m e1 by (simp add: try_except_def)
  next
    case (Inl e)
    show ?thesis
    proof (cases e)
      case (BaseOnly msg)
      then show ?thesis using m e1 Inl by (simp add: try_except_def)
    next
      case (Exception msg)
      obtain r2 st2 where f: "h msg st1 = (r2, st2)" by (cases "h msg st1")
      from emitsD[OF assms(2) f] obtain e2 where e2: "trace st2 = trace st1 @ e2" "list_all P e2" by blast
      have "trace st2 = trace st @ (e1 @ e2) \<and> list_all P (e1 @ e2)" using e1 e2 by simp
      then show ?thesis using m Inl Exception f by (auto simp add: try_except_def)
    qed
  qed
qed

lemma emits_if: "(c \<Longrightarrow> emits P a) \<Longrightarrow> (\<not> c \<Longrightarrow> emits P b) \<Longrightarrow> emits P (if c then a else b)"
  by simp

lemma emits_weaken: "emits P m \<Longrightarrow> (\<And>ev. P ev \<Longrightarrow> Q ev) \<Longrightarrow> emits Q m"
  unfolding emits_def by (metis (mono_tags, lifting) list.pred_mono_strong)

lemma new_events_append: "trace st' = trace st @ evs \<Longrightarrow> new_events st st' = evs"
  by (simp add: new_events_def)

lemmas emits_intros = emits_ret emits_raise emits_emit emits_call emits_bind emits_try emits_if

lemma emits_implement:
  "emits (\<lambda>ev. \<exists>name. ev = CallOn name p) (implement_improvement self p)"
  unfolding implement_improvement_def
  by (intro emits_intros) auto

lemma attempted_append: "attempted p (xs @ ys) \<longleftrightarrow> attempted p xs \<or> attempted p ys"
  by (auto simp: attempted_def list_ex_iff)

lemma attempted_Nil: "\<not> attempted p []"
  by (simp add: attempted_def)

lemma attempted_iff: "attempted p evs \<longleftrightarrow> (\<exists>name. CallOn name p \<in> set evs)"
proof -
  have "is_call_on p ev \<longleftrightarrow> (\<exists>name. ev = CallOn name p)" for ev
    by (cases ev) auto
  then show ?thesis by (auto simp: attempted_def list_ex_iff)
qed

lemma implement_first_call:
  assumes "implement_improvement self p st = (r, st')"
  shows "\<exists>name evs. trace st' = trace st @ CallOn name p # evs \<and>
           list_all (\<lambda>ev. \<exists>n. ev = CallOn n p) evs"
  using assms
  by (auto simp: implement_improvement_def bind_a_def call_def ret_def
           split: prod.splits sum.splits if_splits)

lemma attempt_block_trace:
  assumes "attempt_block self p st = (r, st')"
  shows "\<exists>evs. trace st' = trace st @ evs \<and> (\<forall>q. attempted q evs \<longleftrightarrow> q = p)"
proof -
  obtain r1 s1 where i: "implement_improvement self p st = (r1, s1)"
    by (cases "implement_improvement self p st")
  from implement_first_call[OF i] obtain name evs where
    t: "trace s1 = trace st @ CallOn name p # evs" "list_all (\<lambda>ev. \<exists>n. ev = CallOn n p) evs"
    by blast
  have a: "attempted q (CallOn name p # evs) \<longleftrightarrow> q = p" for q
    using t(2) by (auto simp: attempted_iff list_all_iff)
  have "\<exists>tl. trace st' = trace s1 @ tl \<and> (\<forall>q. \<not> attempted q tl)"
    using assms i
    by (auto simp: attempt_block_def try_except_def bind_a_def logger_info_def logger_error_def
          emit_def attempted_def split: sum.splits exn.splits)
  then obtain tl where tl: "trace st' = trace s1 @ tl" "\<forall>q. \<not> attempted q tl" by blast
  have "trace st' = trace st @ ((CallOn name p # evs) @ tl)" using t tl by simp
  moreover have "\<forall>q. attempted q ((CallOn name p # evs) @ tl) \<longleftrightarrow> q = p"
    using a tl(2) attempted_append by blast
  ultimately show ?thesis by blast
qed

lemma attempt_block_no_Exception: "fst (attempt_block self p st) \<noteq> Inl (Exception m)"
  by (auto simp: attempt_block_def try_except_def bind_a_def logger_info_def logger_error_def
          emit_def split: sum.splits exn.splits prod.splits)

lemma execute_Cons:
  "execute_safe_improvements self (p # ps) =
     (if spec_eligible p
      then bind_a (attempt_block self p) (\<lambda>_. execute_safe_improvements self ps)
      else execute_safe_improvements self ps)"
  by (auto simp: spec_eligible_def attempt_block_def)

lemma execute_trace:
  "execute_safe_improvements self ps st = (r, st') \<Longrightarrow>
     \<exists>evs. trace st' = trace st @ evs \<and>
       (\<forall>q. attempted q evs \<longrightarrow> q \<in> set ps \<and> spec_eligible q) \<and>
       (r = Inr () \<longrightarrow> (\<forall>q\<in>set ps. spec_eligible q \<longrightarrow> attempted q evs))"
proof (induction ps arbitrary: st)
  case Nil
  then show ?case by (simp add: ret_def attempted_Nil)
next
  case (Cons p ps)
  show ?case
  proof (cases "spec_eligible p")
    case False
    with Cons.prems have "execute_safe_improvements self ps st = (r, st')"
      by (simp only: execute_Cons if_False)
    from Cons.IH[OF this] False show ?thesis by auto
  next
    case True
    obtain r1 s1 where b: "attempt_block self p st = (r1, s1)"
      by (cases "attempt_block self p st")
    from attempt_block_trace[OF b] obtain e1 where
      e1: "trace s1 = trace st @ e1" "\<forall>q. attempted q e1 \<longleftrightarrow> q = p" by blast
    show ?thesis
    proof (cases r1)
      case (Inl e)
      with Cons.prems True b have "r = Inl e" "st' = s1"
        by (simp_all only: execute_Cons if_True bind_a_def split: prod.splits sum.splits, auto)
      with e1 True show ?thesis by auto
    next
      case (Inr u)
      with Cons.prems True b have "execute_safe_improvements self ps s1 = (r, st')"
        by (simp only: execute_Cons if_True bind_a_def split: prod.splits sum.splits, auto)
      from Cons.IH[OF this] obtain e2 where
        e2: "trace st' = trace s1 @ e2"
            "\<forall>q. attempted q e2 \<longrightarrow> q \<in> set ps \<and> spec_eligible q"
            "r = Inr () \<longrightarrow> (\<forall>q\<in>set ps. spec_eligible q \<longrightarrow> attempted q e2)" by blast
      have "trace st' = trace st @ (e1 @ e2)" using e1 e2 by simp
      moreover have "\<forall>q. attempted q (e1 @ e2) \<longrightarrow> q \<in> set (p # ps) \<and> spec_eligible q"
        using e1(2) e2(2) True by (auto simp: attempted_append)
      moreover have "r = Inr () \<longrightarrow> (\<forall>q\<in>set (p # ps). spec_eligible q \<longrightarrow> attempted q (e1 @ e2))"
        using e1(2) e2(3) by (auto simp: attempted_append)
      ultimately show ?thesis by blast
    qed
  qed
qed

lemma execute_no_Exception:
  "fst (execute_safe_improvements self ps st) \<noteq> Inl (Exception m)"
proof (induction ps arbitrary: st)
  case Nil
  then show ?case by (simp add: ret_def)
next
  case (Cons p ps)
  show ?case
  proof (cases "spec_eligible p")
    case False
    then show ?thesis using Cons.IH
      by (simp add: execute_Cons del: execute_safe_improvements.simps)
  next
    case True
    obtain r1 s1 where b: "attempt_block self p st = (r1, s1)"
      by (cases "attempt_block self p st")
    show ?thesis
      using attempt_block_no_Exception[of self p st m] Cons.IH[of s1] b True
      by (simp only: execute_Cons if_True bind_a_def split: prod.splits sum.splits, auto)
  qed
qed

lemma execute_append:
  "execute_safe_improvements self (xs @ ys) =
     bind_a (execute_safe_improvements self xs) (\<lambda>_. execute_safe_improvements self ys)"
proof (induction xs)
  case Nil
  show ?case by (rule ext) (simp add: bind_a_def ret_def)
next
  case (Cons p xs)
  have assoc: "bind_a (bind_a m f) g = bind_a m (\<lambda>x. bind_a (f x) g)" for m :: "('w, unit) action" and f g :: "unit \<Rightarrow> ('w, unit) action"
    by (rule ext) (simp add: bind_a_def split: prod.splits sum.splits)
  show ?case
    using Cons.IH by (simp only: append_Cons execute_Cons assoc split: if_splits) simp
qed

lemmas action_defs = ret_def raise_def bind_a_def try_except_def emit_def logger_info_def
  logger_error_def asyncio_sleep_def call_def succeed_def fail_def


lemma implement_accuracy_cost:
  assumes "optimization_type p = ACCURACY \<or> optimization_type p = COST"
  shows "implement_improvement self p =
           call (CallOn ''record_improvement'' p) (record_improvement self p)"
  using assms by (rule_tac ext) (auto simp: implement_improvement_def bind_a_def ret_def)

lemma emits_implement_only_record:
  assumes "optimization_type p = ACCURACY \<or> optimization_type p = COST"
  shows "emits (\<lambda>ev. \<forall>name. ev = CallOn name p \<longrightarrow> name = ''record_improvement'')
           (implement_improvement self q)"
  unfolding implement_improvement_def
  using assms by (intro emits_intros) auto

lemma emits_execute:
  assumes "\<And>q. emits P (implement_improvement self q)"
      and "\<And>s. P (LogInfo s)" and "\<And>s. P (LogError s)"
  shows "emits P (execute_safe_improvements self ps)"
proof (induction ps)
  case Nil
  show ?case by (simp add: emits_ret)
next
  case (Cons p ps)
  have "emits P (attempt_block self p)"
    unfolding attempt_block_def logger_info_def logger_error_def
    by (intro emits_intros assms)
  with Cons show ?case
    by (simp add: execute_Cons emits_bind del: execute_safe_improvements.simps)
qed

lemma generate_improvements_sorted:
  assumes "generate_improvements self patterns st = (Inr ys, st')"
  shows "\<exists>xs. generate_loop self patterns [] st = (Inr xs, st') \<and> ys = sort_reverse priority xs"
  using assms by (auto simp: generate_improvements_def bind_a_def ret_def split: prod.splits sum.splits)

lemma priority_simps:
  "priority (proposal ty c e i r) = impact_score i * feasibility_score e"
  by (simp add: priority_def proposal_def)

section \<open>Lemmas on ingestion and on the loop\<close>

lemma clamp_eq: "max 0 (min 1 raw) = spec_clamp raw"
  by (simp add: spec_clamp_def max_def min_def)

lemma clamp_range: "0 \<le> spec_clamp raw \<and> spec_clamp raw \<le> 1"
  by (simp add: spec_clamp_def)

lemma collect_rows_stored:
  "collect_rows self rows acc st = (Inr outs, st') \<Longrightarrow>
     \<exists>news. outs = acc @ news \<and> list_all2 stored_from rows news"
proof (induction rows arbitrary: acc st)
  case Nil
  then show ?case by (simp add: ret_def)
next
  case (Cons row rows)
  from Cons.prems obtain rm qm raw s2 where
    raw: "row_impact_score row = Some raw" and
    rest: "collect_rows self rows
             (acc @ [\<lparr> project_id = row_project_id row,
                  outcome_type = row_outcome_type row,
                  success_score = max 0.0 (min 1.0 raw),
                  completion_time = row_completion_hours row,
                  resource_utilization = rm,
                  quality_metrics = qm,
                  lessons_learned = or_empty (row_lessons_learned row),
                  patterns_identified = or_empty (row_patterns_identified row),
                  improvement_suggestions = or_empty (row_recommendations row),
                  timestamp = row_created_at row \<rparr>]) s2 = (Inr outs, st')"
    by (auto simp: bind_a_def raise_def split: prod.splits sum.splits option.splits)
  let ?o = "\<lparr> project_id = row_project_id row,
                  outcome_type = row_outcome_type row,
                  success_score = max 0.0 (min 1.0 raw),
                  completion_time = row_completion_hours row,
                  resource_utilization = rm,
                  quality_metrics = qm,
                  lessons_learned = or_empty (row_lessons_learned row),
                  patterns_identified = or_empty (row_patterns_identified row),
                  improvement_suggestions = or_empty (row_recommendations row),
                  timestamp = row_created_at row \<rparr>"
  from Cons.IH[OF rest] obtain news where
    n: "outs = (acc @ [?o]) @ news" "list_all2 stored_from rows news" by blast
  have "stored_from row ?o" using raw by (simp add: stored_from_def clamp_eq)
  with n have "outs = acc @ (?o # news) \<and> list_all2 stored_from (row # rows) (?o # news)"
    by simp
  then show ?case by blast
qed

lemma emits_case_option:
  "(x = None \<Longrightarrow> emits P a) \<Longrightarrow> (\<And>v. x = Some v \<Longrightarrow> emits P (f v)) \<Longrightarrow>
     emits P (case x of None \<Rightarrow> a | Some v \<Rightarrow> f v)"
  by (cases x) simp_all

lemma emits_collect_rows:
  "emits (\<lambda>ev. \<not> is_sleep ev) (collect_rows self rows acc)"
proof (induction rows arbitrary: acc)
  case Nil
  show ?case by (simp add: emits_ret)
next
  case (Cons row rows)
  show ?case
    unfolding collect_rows.simps get_resource_metrics_def get_quality_metrics_def
    by (intro emits_intros emits_case_option Cons.IH) simp_all
qed

lemma emits_collect:
  "emits (\<lambda>ev. \<not> is_sleep ev) (collect_learning_outcomes self)"
  unfolding collect_learning_outcomes_def
  by (intro emits_intros emits_collect_rows) simp_all

lemma emits_analyze:
  "emits (\<lambda>ev. \<not> is_sleep ev) (analyze_patterns self outcomes)"
  unfolding analyze_patterns_def
  by (intro emits_intros) simp_all

lemma emits_generate_loop:
  "emits (\<lambda>ev. \<not> is_sleep ev) (generate_loop self patterns acc)"
proof (induction patterns arbitrary: acc)
  case Nil
  show ?case by (simp add: emits_ret)
next
  case (Cons p ps)
  show ?case
    unfolding generate_loop.simps
    by (intro emits_intros Cons.IH) simp_all
qed

lemma emits_generate:
  "emits (\<lambda>ev. \<not> is_sleep ev) (generate_improvements self patterns)"
  unfolding generate_improvements_def
  by (intro emits_intros emits_generate_loop)

lemma emits_execute_quiet:
  "emits (\<lambda>ev. \<not> is_sleep ev) (execute_safe_improvements self ps)"
proof (rule emits_execute)
  fix q
  show "emits (\<lambda>ev. \<not> is_sleep ev) (implement_improvement self q)"
    by (rule emits_weaken[OF emits_implement]) auto
qed simp_all

lemma emits_update:
  "emits (\<lambda>ev. \<not> is_sleep ev) (update_learning_models self outcomes)"
  unfolding update_learning_models_def
  by (intro emits_intros) simp_all

lemma bind_assoc: "bind_a (bind_a m f) g = bind_a m (\<lambda>x. bind_a (f x) g)"
  by (rule ext) (simp add: bind_a_def split: prod.splits sum.splits)

lemma cycle_body_stages:
  "cycle_body self =
     bind_a (stages self) (\<lambda>_. asyncio_sleep (config_get_learning_interval (config self)))"
  by (simp add: cycle_body_def stages_def bind_assoc)

lemma emits_stages: "emits (\<lambda>ev. \<not> is_sleep ev) (stages self)"
  unfolding stages_def
  by (intro emits_intros emits_collect emits_analyze emits_generate emits_execute_quiet
        emits_update) simp_all

lemma cycle_body_failure:
  assumes "cycle_body self st = (Inl e, st1)"
  shows "stages self st = (Inl e, st1)"
  using assms
  by (auto simp: cycle_body_stages bind_a_def asyncio_sleep_def emit_def
           split: prod.splits sum.splits)

lemma cycle_body_success:
  assumes "cycle_body self st = (Inr u, st1)"
  shows "\<exists>s. stages self st = (Inr (), s) \<and>
           st1 = s\<lparr>trace := trace s @ [Sleep (config_get_learning_interval (config self))]\<rparr>"
  using assms
  by (auto simp: cycle_body_stages bind_a_def asyncio_sleep_def emit_def
           split: prod.splits sum.splits)

lemma loop_iteration_no_Exception:
  "fst (loop_iteration self st) \<noteq> Inl (Exception m)"
  by (auto simp: loop_iteration_def try_except_def bind_a_def logger_error_def asyncio_sleep_def
          emit_def split: sum.splits exn.splits prod.splits)

lemma while_true_no_Exception:
  "fst (while_true n self st) \<noteq> Some (Exception m)"
proof (induction n arbitrary: st)
  case 0
  show ?case by simp
next
  case (Suc n)
  obtain r s1 where i: "loop_iteration self st = (r, s1)" by (cases "loop_iteration self st")
  show ?case
    using loop_iteration_no_Exception[of self st m] i Suc.IH[of s1]
    by (auto split: sum.splits)
qed

lemma emits_first_collect:
  "\<exists>evs. trace (snd (collect_learning_outcomes self st)) = trace st @ Call ''db.fetch_all'' # evs"
proof -
  obtain r w' where f: "fetch_all_outcomes (db self) (world st) = (r, w')"
    by (cases "fetch_all_outcomes (db self) (world st)")
  let ?s1 = "st\<lparr>world := w', trace := trace st @ [Call ''db.fetch_all'']\<rparr>"
  show ?thesis
  proof (cases r)
    case (Inl e)
    then show ?thesis using f
      by (simp add: collect_learning_outcomes_def bind_a_def call_def)
  next
    case (Inr rows)
    obtain r2 s2 where c: "collect_rows self rows [] ?s1 = (r2, s2)"
      by (cases "collect_rows self rows [] ?s1")
    from emitsD[OF emits_collect_rows c] obtain evs where "trace s2 = trace ?s1 @ evs" by blast
    then show ?thesis using f Inr c
      by (simp add: collect_learning_outcomes_def bind_a_def call_def)
  qed
qed

lemma trace_extends:
  assumes "emits P m" shows "\<exists>evs. trace (snd (m st)) = trace st @ evs"
  using assms unfolding emits_def by blast

lemma emits_any_bind_first:
  assumes "\<exists>evs. trace (snd (m st)) = trace st @ ev # evs"
      and "\<And>v. emits P (f v)"
  shows "\<exists>evs. trace (snd (bind_a m f st)) = trace st @ ev # evs"
proof -
  obtain r s1 where m: "m st = (r, s1)" by (cases "m st")
  from assms(1) m obtain e1 where e1: "trace s1 = trace st @ ev # e1" by auto
  show ?thesis
  proof (cases r)
    case (Inl e)
    then show ?thesis using m e1 by (simp add: bind_a_def)
  next
    case (Inr v)
    from trace_extends[OF assms(2), of v s1] obtain e2 where
      "trace (snd (f v s1)) = trace s1 @ e2" by blast
    then show ?thesis using m Inr e1 by (simp add: bind_a_def)
  qed
qed

lemma emits_rest_of_cycle:
  "emits (\<lambda>_. True) (\<lambda>st. (bind_a (analyze_patterns self new_outcomes) (\<lambda>patterns.
     bind_a (generate_improvements self patterns) (\<lambda>recommendations.
     bind_a (execute_safe_improvements self recommendations) (\<lambda>_.
     bind_a (update_learning_models self new_outcomes) (\<lambda>_.
     bind_a (call (Call ''system_health_check'') (system_health_check self)) (\<lambda>_.
       asyncio_sleep (config_get_learning_interval (config self)))))))) st)"
  unfolding asyncio_sleep_def
  by (intro emits_intros emits_weaken[OF emits_analyze] emits_weaken[OF emits_generate]
        emits_weaken[OF emits_execute_quiet] emits_weaken[OF emits_update]) simp_all

lemma cycle_body_first:
  "\<exists>evs. trace (snd (cycle_body self st)) = trace st @ Call ''db.fetch_all'' # evs"
  unfolding cycle_body_def
  by (rule emits_any_bind_first[OF emits_first_collect])
     (rule emits_rest_of_cycle[simplified])

lemma loop_iteration_first:
  "\<exists>evs. trace (snd (loop_iteration self st)) = trace st @ Call ''db.fetch_all'' # evs"
proof -
  obtain r s1 where c: "cycle_body self st = (r, s1)" by (cases "cycle_body self st")
  from cycle_body_first[of self st] c obtain evs where
    e: "trace s1 = trace st @ Call ''db.fetch_all'' # evs" by auto
  show ?thesis
    using c e
    by (auto simp: loop_iteration_def try_except_def bind_a_def logger_error_def
          asyncio_sleep_def emit_def split: sum.splits exn.splits)
qed

text \<open>The gate of \<open>generate_improvements\<close> is the literal 0.7, whatever the configuration.\<close>

lemma generate_loop_below_literal:
  "\<forall>p\<in>set patterns. confidence p < 0.7 \<Longrightarrow>
     generate_loop self patterns acc = ret acc"
  by (induction patterns) simp_all

lemma generate_improvements_below_literal:
  "\<forall>p\<in>set patterns. confidence p < 0.7 \<Longrightarrow>
     generate_improvements self patterns st = (Inr [], st)"
  by (simp add: generate_improvements_def generate_loop_below_literal bind_a_def ret_def
        sort_reverse_def)

section \<open>The claims\<close>

text \<open>
  Claim C1. A proposal is autonomously applied by \<open>execute_safe_improvements\<close> if and
  only if its risk level is low, its implementation effort is low and its expected
  impact is medium or high: whatever the collaborators do, an application is attempted
  only on proposals of the list that pass this test; when the run returns (no
  \<open>BaseException\<close> cut it short) an application was attempted on every proposal of the
  list that passes it; and on a proposal with risk low, effort low and impact low no
  application is attempted.
\<close>

theorem execute_safe_improvements_applies_iff_eligible:
  assumes "execute_safe_improvements self improvements st = (r, st')"
  shows "(\<forall>p. attempted p (new_events st st') \<longrightarrow> p \<in> set improvements \<and> spec_eligible p) \<and>
         (r = Inr () \<longrightarrow>
            (\<forall>p\<in>set improvements. spec_eligible p \<longrightarrow> attempted p (new_events st st'))) \<and>
         (\<forall>p. risk_level p = ''low'' \<and> implementation_effort p = ''low'' \<and>
               expected_impact p = ''low'' \<longrightarrow> \<not> attempted p (new_events st st'))"
proof -
  from execute_trace[OF assms] obtain evs where
    e: "trace st' = trace st @ evs"
       "\<forall>q. attempted q evs \<longrightarrow> q \<in> set improvements \<and> spec_eligible q"
       "r = Inr () \<longrightarrow> (\<forall>q\<in>set improvements. spec_eligible q \<longrightarrow> attempted q evs)" by blast
  have n: "new_events st st' = evs" using e(1) by (rule new_events_append)
  have "\<not> spec_eligible p" if "expected_impact p = ''low''" for p
    using that by (simp add: spec_eligible_def)
  with e n show ?thesis by auto
qed

theorem execute_safe_improvements_applies_iff_eligible_witness:
  "execute_safe_improvements example_engine
     [proposal PERFORMANCE ''cache'' ''low'' ''high'' ''low'',
      proposal PERFORMANCE ''pool'' ''low'' ''low'' ''low''] initial_state =
     (Inr (), \<lparr> world = (), trace =
        [CallOn ''implement_performance_improvement'' (proposal PERFORMANCE ''cache'' ''low'' ''high'' ''low''),
         CallOn ''record_improvement'' (proposal PERFORMANCE ''cache'' ''low'' ''high'' ''low''),
         LogInfo ''Automatically implemented improvement: cache''] \<rparr>) \<and>
   attempted (proposal PERFORMANCE ''cache'' ''low'' ''high'' ''low'')
     (new_events initial_state \<lparr> world = (), trace =
        [CallOn ''implement_performance_improvement'' (proposal PERFORMANCE ''cache'' ''low'' ''high'' ''low''),
         CallOn ''record_improvement'' (proposal PERFORMANCE ''cache'' ''low'' ''high'' ''low''),
         LogInfo ''Automatically implemented improvement: cache''] \<rparr>) \<and>
   \<not> attempted (proposal PERFORMANCE ''pool'' ''low'' ''low'' ''low'')
     (new_events initial_state \<lparr> world = (), trace =
        [CallOn ''implement_performance_improvement'' (proposal PERFORMANCE ''cache'' ''low'' ''high'' ''low''),
         CallOn ''record_improvement'' (proposal PERFORMANCE ''cache'' ''low'' ''high'' ''low''),
         LogInfo ''Automatically implemented improvement: cache''] \<rparr>)"
proof -
  have h: "execute_safe_improvements example_engine
     [proposal PERFORMANCE ''cache'' ''low'' ''high'' ''low'',
      proposal PERFORMANCE ''pool'' ''low'' ''low'' ''low''] initial_state =
     (Inr (), \<lparr> world = (), trace =
        [CallOn ''implement_performance_improvement'' (proposal PERFORMANCE ''cache'' ''low'' ''high'' ''low''),
         CallOn ''record_improvement'' (proposal PERFORMANCE ''cache'' ''low'' ''high'' ''low''),
         LogInfo ''Automatically implemented improvement: cache''] \<rparr>)"
    by (simp add: implement_improvement_def example_engine_def proposal_def initial_state_def action_defs)
  show ?thesis
    using execute_safe_improvements_applies_iff_eligible[OF h] h by (simp add: spec_eligible_def proposal_def)
qed

text \<open>
  Claim C5. Within one call of \<open>execute_safe_improvements\<close>, when applying an eligible
  proposal raises an exception, the exception is caught and logged, and the run goes on
  with the later proposals of the list exactly as the executor runs on them alone, from
  the state the failure and its log record left. The exception does not leave the
  executor, and when the run returns an application was attempted on every later
  proposal that passes the eligibility test.
\<close>

theorem execute_safe_improvements_isolates_failure:
  assumes "execute_safe_improvements self before st = (Inr (), st1)"
      and "spec_eligible p"
      and "implement_improvement self p st1 = (Inl (Exception msg), st2)"
  shows "execute_safe_improvements self (before @ p # later) st =
           execute_safe_improvements self later
             (st2\<lparr>trace := trace st2 @
                [LogError (''Failed to implement improvement '' @ component p @ '': '' @ msg)]\<rparr>) \<and>
         (\<forall>r st'. execute_safe_improvements self (before @ p # later) st = (r, st') \<longrightarrow>
            r \<noteq> Inl (Exception msg) \<and>
            (r = Inr () \<longrightarrow>
               (\<forall>q\<in>set later. spec_eligible q \<longrightarrow> attempted q (new_events st2 st'))))"
proof -
  let ?s3 = "st2\<lparr>trace := trace st2 @
                [LogError (''Failed to implement improvement '' @ component p @ '': '' @ msg)]\<rparr>"
  have "attempt_block self p st1 = (Inr (), ?s3)"
    using assms(3)
    by (simp add: attempt_block_def try_except_def bind_a_def logger_error_def emit_def)
  then have eq: "execute_safe_improvements self (before @ p # later) st =
      execute_safe_improvements self later ?s3"
    using assms(1,2)
    by (simp only: execute_append execute_Cons if_True bind_a_def split: prod.splits sum.splits,
        auto)
  have "r \<noteq> Inl (Exception msg) \<and>
        (r = Inr () \<longrightarrow>
           (\<forall>q\<in>set later. spec_eligible q \<longrightarrow> attempted q (new_events st2 st')))"
    if run: "execute_safe_improvements self (before @ p # later) st = (r, st')" for r st'
  proof -
    from run eq have l: "execute_safe_improvements self later ?s3 = (r, st')" by simp
    from execute_trace[OF l] obtain evs where
      e: "trace st' = trace ?s3 @ evs"
         "r = Inr () \<longrightarrow> (\<forall>q\<in>set later. spec_eligible q \<longrightarrow> attempted q evs)" by blast
    have "new_events st2 st' =
        LogError (''Failed to implement improvement '' @ component p @ '': '' @ msg) # evs"
      using e(1) by (simp add: new_events_def)
    then have "attempted q evs \<Longrightarrow> attempted q (new_events st2 st')" for q
      by (simp add: attempted_def)
    moreover have "r \<noteq> Inl (Exception msg)"
      using execute_no_Exception[of self later ?s3 msg] l by simp
    ultimately show ?thesis using e(2) by blast
  qed
  with eq show ?thesis by blast
qed

theorem execute_safe_improvements_isolates_failure_witness:
  "execute_safe_improvements flaky_engine
     [proposal PERFORMANCE ''cache'' ''low'' ''high'' ''low'',
      proposal PERFORMANCE ''pool'' ''low'' ''high'' ''low'',
      proposal PERFORMANCE ''index'' ''low'' ''medium'' ''low''] initial_state =
   (Inr (), \<lparr> world = (), trace =
      [CallOn ''implement_performance_improvement'' (proposal PERFORMANCE ''cache'' ''low'' ''high'' ''low''),
       CallOn ''record_improvement'' (proposal PERFORMANCE ''cache'' ''low'' ''high'' ''low''),
       LogInfo ''Automatically implemented improvement: cache'',
       CallOn ''implement_performance_improvement'' (proposal PERFORMANCE ''pool'' ''low'' ''high'' ''low''),
       LogError ''Failed to implement improvement pool: boom'',
       CallOn ''implement_performance_improvement'' (proposal PERFORMANCE ''index'' ''low'' ''medium'' ''low''),
       CallOn ''record_improvement'' (proposal PERFORMANCE ''index'' ''low'' ''medium'' ''low''),
       LogInfo ''Automatically implemented improvement: index''] \<rparr>)"
proof -
  let ?a = "proposal PERFORMANCE ''cache'' ''low'' ''high'' ''low''"
  let ?b = "proposal PERFORMANCE ''pool'' ''low'' ''high'' ''low''"
  let ?c = "proposal PERFORMANCE ''index'' ''low'' ''medium'' ''low''"
  let ?s1 = "\<lparr> world = (), trace =
      [CallOn ''implement_performance_improvement'' ?a, CallOn ''record_improvement'' ?a,
       LogInfo ''Automatically implemented improvement: cache''] \<rparr>"
  let ?s2 = "\<lparr> world = (), trace =
      [CallOn ''implement_performance_improvement'' ?a, CallOn ''record_improvement'' ?a,
       LogInfo ''Automatically implemented improvement: cache'',
       CallOn ''implement_performance_improvement'' ?b] \<rparr>"
  have h1: "execute_safe_improvements flaky_engine [?a] initial_state = (Inr (), ?s1)"
    by (simp add: implement_improvement_def flaky_engine_def example_engine_def proposal_def
          initial_state_def action_defs)
  have h2: "spec_eligible ?b"
    by (simp add: spec_eligible_def proposal_def)
  have h3: "implement_improvement flaky_engine ?b ?s1 = (Inl (Exception ''boom''), ?s2)"
    by (simp add: implement_improvement_def flaky_engine_def example_engine_def proposal_def
          action_defs)
  show ?thesis
    using execute_safe_improvements_isolates_failure[OF h1 h2 h3, of "[?c]"]
    by (simp add: implement_improvement_def flaky_engine_def example_engine_def proposal_def
          action_defs)
qed

text \<open>
  Claim C8, as amended. For a proposal whose category is accuracy or cost the executor
  never calls a category-specific implementer: the only collaborator it ever calls on
  such a proposal is \<open>record_improvement\<close>. The proposal is not set aside, though:
  when it passes the eligibility test and the run returns, \<open>record_improvement\<close> has
  been called on it, as for an applied improvement.
\<close>

theorem accuracy_cost_recorded_without_implementer:
  assumes "optimization_type p = ACCURACY \<or> optimization_type p = COST"
      and "execute_safe_improvements self improvements st = (r, st')"
  shows "(\<forall>name. name \<noteq> ''record_improvement'' \<longrightarrow>
            CallOn name p \<notin> set (new_events st st')) \<and>
         (spec_eligible p \<and> p \<in> set improvements \<and> r = Inr () \<longrightarrow>
            CallOn ''record_improvement'' p \<in> set (new_events st st'))"
proof -
  let ?P = "\<lambda>ev. \<forall>name. ev = CallOn name p \<longrightarrow> name = ''record_improvement''"
  have "emits ?P (execute_safe_improvements self improvements)"
    by (rule emits_execute) (simp_all add: emits_implement_only_record[OF assms(1)])
  from emitsD[OF this assms(2)] obtain evs where
    e: "trace st' = trace st @ evs" "list_all ?P evs" by blast
  have n: "new_events st st' = evs" using e(1) by (rule new_events_append)
  have only: "\<forall>name. name \<noteq> ''record_improvement'' \<longrightarrow> CallOn name p \<notin> set evs"
    using e(2) by (auto simp: list_all_iff)
  from execute_trace[OF assms(2)] obtain evs' where
    e': "trace st' = trace st @ evs'"
        "r = Inr () \<longrightarrow> (\<forall>q\<in>set improvements. spec_eligible q \<longrightarrow> attempted q evs')" by blast
  have "evs' = evs" using e(1) e'(1) by simp
  with e'(2) have "spec_eligible p \<and> p \<in> set improvements \<and> r = Inr () \<longrightarrow>
      (\<exists>name. CallOn name p \<in> set evs)"
    by (auto simp: attempted_iff)
  with only n show ?thesis by metis
qed

theorem accuracy_cost_recorded_without_implementer_witness:
  "execute_safe_improvements example_engine
     [proposal COST ''billing'' ''low'' ''medium'' ''low''] initial_state =
     (Inr (), \<lparr> world = (), trace =
        [CallOn ''record_improvement'' (proposal COST ''billing'' ''low'' ''medium'' ''low''),
         LogInfo ''Automatically implemented improvement: billing''] \<rparr>) \<and>
   CallOn ''implement_performance_improvement''
     (proposal COST ''billing'' ''low'' ''medium'' ''low'') \<notin> set
       (new_events initial_state \<lparr> world = (), trace =
        [CallOn ''record_improvement'' (proposal COST ''billing'' ''low'' ''medium'' ''low''),
         LogInfo ''Automatically implemented improvement: billing''] \<rparr>) \<and>
   CallOn ''record_improvement'' (proposal COST ''billing'' ''low'' ''medium'' ''low'') \<in> set
       (new_events initial_state \<lparr> world = (), trace =
        [CallOn ''record_improvement'' (proposal COST ''billing'' ''low'' ''medium'' ''low''),
         LogInfo ''Automatically implemented improvement: billing''] \<rparr>)"
proof -
  let ?p = "proposal COST ''billing'' ''low'' ''medium'' ''low''"
  let ?s = "\<lparr> world = (), trace =
     [CallOn ''record_improvement'' ?p,
      LogInfo ''Automatically implemented improvement: billing''] \<rparr>"
  have h1: "optimization_type ?p = ACCURACY \<or> optimization_type ?p = COST"
    by (simp add: proposal_def)
  have h2: "execute_safe_improvements example_engine [?p] initial_state = (Inr (), ?s)"
    by (simp add: implement_improvement_def example_engine_def proposal_def
          initial_state_def action_defs)
  have e: "spec_eligible ?p" by (simp add: spec_eligible_def proposal_def)
  show ?thesis
    using accuracy_cost_recorded_without_implementer[OF h1 h2] h2 e by simp
qed

text \<open>
  Claim C8 as stated fails: an eligible accuracy proposal is not left alone by the
  executor; it is passed to \<open>record_improvement\<close> and logged as automatically
  implemented.
\<close>

theorem accuracy_proposal_applied_counterexample:
  "spec_eligible (proposal ACCURACY ''model'' ''low'' ''high'' ''low'') \<and>
   optimization_type (proposal ACCURACY ''model'' ''low'' ''high'' ''low'') = ACCURACY \<and>
   trace (snd (execute_safe_improvements example_engine
      [proposal ACCURACY ''model'' ''low'' ''high'' ''low''] initial_state)) =
     [CallOn ''record_improvement'' (proposal ACCURACY ''model'' ''low'' ''high'' ''low''),
      LogInfo ''Automatically implemented improvement: model'']"
  by (simp add: implement_improvement_def example_engine_def proposal_def spec_eligible_def
          initial_state_def action_defs)

text \<open>
  Claim C9, as amended. An attempted application that returns has called
  \<open>record_improvement\<close> on the proposal as its last step. When the category
  implementer of the proposal (performance, efficiency, reliability or scalability)
  raises, \<open>implement_improvement\<close> raises the same exception from the state that
  the implementer left, its only event is the call of the implementer, and
  \<open>record_improvement\<close> is not called: a failed implementation is not recorded. When
  the implementer returns, \<open>record_improvement\<close> is called next, from the world the
  implementer left, and its result is the result of the attempt; for accuracy and cost
  it is the only call.
\<close>

theorem implement_improvement_records_on_success_only:
  assumes "implement_improvement self p st = (r, st')"
  shows "(r = Inr () \<longrightarrow> new_events st st' \<noteq> [] \<and>
            last (new_events st st') = CallOn ''record_improvement'' p) \<and>
         (CallOn ''record_improvement'' p \<in> set (new_events st st') \<or>
          (\<exists>name e. name \<noteq> ''record_improvement'' \<and>
              new_events st st' = [CallOn name p] \<and> r = Inl e)) \<and>
         (\<forall>e w'. optimization_type p = PERFORMANCE \<and>
            implement_performance_improvement self p (world st) = (Inl e, w') \<longrightarrow>
              r = Inl e \<and>
              st' = st\<lparr>world := w', trace := trace st @
                       [CallOn ''implement_performance_improvement'' p]\<rparr> \<and>
              CallOn ''record_improvement'' p \<notin> set (new_events st st')) \<and>
         (\<forall>e w'. optimization_type p = EFFICIENCY \<and>
            implement_efficiency_improvement self p (world st) = (Inl e, w') \<longrightarrow>
              r = Inl e \<and>
              st' = st\<lparr>world := w', trace := trace st @
                       [CallOn ''implement_efficiency_improvement'' p]\<rparr> \<and>
              CallOn ''record_improvement'' p \<notin> set (new_events st st')) \<and>
         (\<forall>e w'. optimization_type p = RELIABILITY \<and>
            implement_reliability_improvement self p (world st) = (Inl e, w') \<longrightarrow>
              r = Inl e \<and>
              st' = st\<lparr>world := w', trace := trace st @
                       [CallOn ''implement_reliability_improvement'' p]\<rparr> \<and>
              CallOn ''record_improvement'' p \<notin> set (new_events st st')) \<and>
         (\<forall>e w'. optimization_type p = SCALABILITY \<and>
            implement_scalability_improvement self p (world st) = (Inl e, w') \<longrightarrow>
              r = Inl e \<and>
              st' = st\<lparr>world := w', trace := trace st @
                       [CallOn ''implement_scalability_improvement'' p]\<rparr> \<and>
              CallOn ''record_improvement'' p \<notin> set (new_events st st')) \<and>
         (\<forall>w'. (optimization_type p = PERFORMANCE \<and>
                  implement_performance_improvement self p (world st) = (Inr (), w')) \<or>
                (optimization_type p = EFFICIENCY \<and>
                  implement_efficiency_improvement self p (world st) = (Inr (), w')) \<or>
                (optimization_type p = RELIABILITY \<and>
                  implement_reliability_improvement self p (world st) = (Inr (), w')) \<or>
                (optimization_type p = SCALABILITY \<and>
                  implement_scalability_improvement self p (world st) = (Inr (), w')) \<longrightarrow>
              length (new_events st st') = 2 \<and>
              last (new_events st st') = CallOn ''record_improvement'' p \<and>
              fst (record_improvement self p w') = r) \<and>
         (optimization_type p = ACCURACY \<or> optimization_type p = COST \<longrightarrow>
            new_events st st' = [CallOn ''record_improvement'' p] \<and>
            fst (record_improvement self p (world st)) = r)"
proof -
  have c1: "(r = Inr () \<longrightarrow> new_events st st' \<noteq> [] \<and>
            last (new_events st st') = CallOn ''record_improvement'' p) \<and>
         (CallOn ''record_improvement'' p \<in> set (new_events st st') \<or>
          (\<exists>name e. name \<noteq> ''record_improvement'' \<and>
              new_events st st' = [CallOn name p] \<and> r = Inl e))"
    using assms
    by (auto simp: implement_improvement_def bind_a_def call_def ret_def new_events_def
             split: prod.splits sum.splits if_splits)
  have perf: "r = Inl e \<and>
      st' = st\<lparr>world := w', trace := trace st @ [CallOn ''implement_performance_improvement'' p]\<rparr> \<and>
      CallOn ''record_improvement'' p \<notin> set (new_events st st')"
    if "optimization_type p = PERFORMANCE"
       "implement_performance_improvement self p (world st) = (Inl e, w')" for e w'
    using assms that
    by (auto simp: implement_improvement_def bind_a_def call_def new_events_def)
  have eff: "r = Inl e \<and>
      st' = st\<lparr>world := w', trace := trace st @ [CallOn ''implement_efficiency_improvement'' p]\<rparr> \<and>
      CallOn ''record_improvement'' p \<notin> set (new_events st st')"
    if "optimization_type p = EFFICIENCY"
       "implement_efficiency_improvement self p (world st) = (Inl e, w')" for e w'
    using assms that
    by (auto simp: implement_improvement_def bind_a_def call_def new_events_def)
  have rel: "r = Inl e \<and>
      st' = st\<lparr>world := w', trace := trace st @ [CallOn ''implement_reliability_improvement'' p]\<rparr> \<and>
      CallOn ''record_improvement'' p \<notin> set (new_events st st')"
    if "optimization_type p = RELIABILITY"
       "implement_reliability_improvement self p (world st) = (Inl e, w')" for e w'
    using assms that
    by (auto simp: implement_improvement_def bind_a_def call_def new_events_def)
  have sca: "r = Inl e \<and>
      st' = st\<lparr>world := w', trace := trace st @ [CallOn ''implement_scalability_improvement'' p]\<rparr> \<and>
      CallOn ''record_improvement'' p \<notin> set (new_events st st')"
    if "optimization_type p = SCALABILITY"
       "implement_scalability_improvement self p (world st) = (Inl e, w')" for e w'
    using assms that
    by (auto simp: implement_improvement_def bind_a_def call_def new_events_def)
  have ok: "length (new_events st st') = 2 \<and>
      last (new_events st st') = CallOn ''record_improvement'' p \<and>
      fst (record_improvement self p w') = r"
    if "(optimization_type p = PERFORMANCE \<and>
                  implement_performance_improvement self p (world st) = (Inr (), w')) \<or>
                (optimization_type p = EFFICIENCY \<and>
                  implement_efficiency_improvement self p (world st) = (Inr (), w')) \<or>
                (optimization_type p = RELIABILITY \<and>
                  implement_reliability_improvement self p (world st) = (Inr (), w')) \<or>
                (optimization_type p = SCALABILITY \<and>
                  implement_scalability_improvement self p (world st) = (Inr (), w'))" for w'
    using assms that
    by (auto simp: implement_improvement_def bind_a_def call_def new_events_def
             split: prod.splits)
  have none: "new_events st st' = [CallOn ''record_improvement'' p] \<and>
            fst (record_improvement self p (world st)) = r"
    if "optimization_type p = ACCURACY \<or> optimization_type p = COST"
    using assms that
    by (auto simp: implement_improvement_def bind_a_def call_def ret_def new_events_def
             split: prod.splits)
  from c1 perf eff rel sca ok none show ?thesis by blast
qed

theorem implement_improvement_records_on_success_only_witness:
  "implement_improvement flaky_engine (proposal PERFORMANCE ''pool'' ''low'' ''high'' ''low'')
     initial_state =
     (Inl (Exception ''boom''), \<lparr> world = (), trace =
        [CallOn ''implement_performance_improvement''
           (proposal PERFORMANCE ''pool'' ''low'' ''high'' ''low'')] \<rparr>) \<and>
   CallOn ''record_improvement'' (proposal PERFORMANCE ''pool'' ''low'' ''high'' ''low'')
     \<notin> set (new_events initial_state \<lparr> world = (), trace =
        [CallOn ''implement_performance_improvement''
           (proposal PERFORMANCE ''pool'' ''low'' ''high'' ''low'')] \<rparr>) \<and>
   implement_improvement example_engine (proposal PERFORMANCE ''cache'' ''low'' ''high'' ''low'')
     initial_state =
     (Inr (), \<lparr> world = (), trace =
        [CallOn ''implement_performance_improvement''
           (proposal PERFORMANCE ''cache'' ''low'' ''high'' ''low''),
         CallOn ''record_improvement''
           (proposal PERFORMANCE ''cache'' ''low'' ''high'' ''low'')] \<rparr>) \<and>
   last (new_events initial_state \<lparr> world = (), trace =
        [CallOn ''implement_performance_improvement''
           (proposal PERFORMANCE ''cache'' ''low'' ''high'' ''low''),
         CallOn ''record_improvement''
           (proposal PERFORMANCE ''cache'' ''low'' ''high'' ''low'')] \<rparr>) =
     CallOn ''record_improvement'' (proposal PERFORMANCE ''cache'' ''low'' ''high'' ''low'')"
proof -
  let ?q = "proposal PERFORMANCE ''pool'' ''low'' ''high'' ''low''"
  let ?t = "\<lparr> world = (), trace = [CallOn ''implement_performance_improvement'' ?q] \<rparr>"
  let ?p = "proposal PERFORMANCE ''cache'' ''low'' ''high'' ''low''"
  let ?s = "\<lparr> world = (), trace = [CallOn ''implement_performance_improvement'' ?p,
     CallOn ''record_improvement'' ?p] \<rparr>"
  have f: "implement_improvement flaky_engine ?q initial_state = (Inl (Exception ''boom''), ?t)"
    by (simp add: implement_improvement_def flaky_engine_def example_engine_def proposal_def
          initial_state_def action_defs)
  have ty: "optimization_type ?q = PERFORMANCE" by (simp add: proposal_def)
  have raised: "implement_performance_improvement flaky_engine ?q (world initial_state) =
      (Inl (Exception ''boom''), ())"
    by (simp add: flaky_engine_def example_engine_def proposal_def fail_def)
  have nr: "CallOn ''record_improvement'' ?q \<notin> set (new_events initial_state ?t)"
    using implement_improvement_records_on_success_only[OF f, THEN conjunct2, THEN conjunct2, THEN conjunct1, rule_format,
                of "Exception ''boom''" "()"] ty raised
    by (simp add: initial_state_def)
  have h: "implement_improvement example_engine ?p initial_state = (Inr (), ?s)"
    by (simp add: implement_improvement_def example_engine_def proposal_def
          initial_state_def action_defs)
  have l: "last (new_events initial_state ?s) = CallOn ''record_improvement'' ?p"
    using implement_improvement_records_on_success_only[OF h, THEN conjunct1] by simp
  from f nr h l show ?thesis by simp
qed

text \<open>
  Claim C9 as stated fails: when the implementer raises, the executor logs the error and
  \<open>record_improvement\<close> is never called on the proposal.
\<close>

theorem failed_attempt_not_recorded_counterexample:
  "spec_eligible (proposal PERFORMANCE ''pool'' ''low'' ''high'' ''low'') \<and>
   trace (snd (execute_safe_improvements flaky_engine
      [proposal PERFORMANCE ''pool'' ''low'' ''high'' ''low''] initial_state)) =
     [CallOn ''implement_performance_improvement''
        (proposal PERFORMANCE ''pool'' ''low'' ''high'' ''low''),
      LogError ''Failed to implement improvement pool: boom''] \<and>
   CallOn ''record_improvement'' (proposal PERFORMANCE ''pool'' ''low'' ''high'' ''low'')
     \<notin> set (trace (snd (execute_safe_improvements flaky_engine
      [proposal PERFORMANCE ''pool'' ''low'' ''high'' ''low''] initial_state)))"
  by (simp add: implement_improvement_def flaky_engine_def example_engine_def proposal_def
          spec_eligible_def initial_state_def action_defs)

text \<open>
  Claim C3, as amended. For every payload with a true truth value,
  \<open>calculate_confidence\<close> returns \<open>min(1.0, sample_size / 100.0)\<close>, where the sample
  size is the length of a list and 1 for any other payload; for every payload with a
  false truth value (the empty list, but also \<open>None\<close>, \<open>False\<close>, \<open>0\<close>, \<open>0.0\<close>
  and the empty string, tuple or dictionary) it returns \<open>0.0\<close>. It does not decrease
  when the sample size grows towards a payload with a true truth value, and it equals
  \<open>1.0\<close> exactly when the sample size is at least 100.
\<close>

theorem calculate_confidence_truthy_formula:
  "calculate_confidence data =
     (if truthy data then min 1.0 (real (spec_sample_size data) / 100.0) else 0.0) \<and>
   calculate_confidence (PList []) = 0.0 \<and>
   (truthy b \<and> spec_sample_size a \<le> spec_sample_size b \<longrightarrow>
      calculate_confidence a \<le> calculate_confidence b) \<and>
   (calculate_confidence data = 1.0 \<longleftrightarrow> 100 \<le> spec_sample_size data)"
  using conf_eq[of data] conf_mono[of b a] conf_sat[of data]
  by (simp add: calculate_confidence_def)

theorem calculate_confidence_truthy_formula_witness:
  "calculate_confidence (PList (replicate 70 PNone)) = 0.7 \<and>
   calculate_confidence (PDict [(''k'', PInt 1)]) = 0.01 \<and>
   calculate_confidence (PDict []) = 0.0 \<and>
   calculate_confidence (PDict [(''k'', PInt 1)]) \<le> calculate_confidence (PList (replicate 70 PNone)) \<and>
   calculate_confidence (PList (replicate 100 PNone)) = 1.0"
  using calculate_confidence_truthy_formula[of "PList (replicate 70 PNone)" "PList (replicate 70 PNone)" "PDict [(''k'', PInt 1)]"]
        calculate_confidence_truthy_formula[of "PDict [(''k'', PInt 1)]"]
        calculate_confidence_truthy_formula[of "PDict []"]
        calculate_confidence_truthy_formula[of "PList (replicate 100 PNone)"]
  by (simp add: spec_sample_size_def)

text \<open>
  Claim C3 as stated fails: the scalar \<open>0\<close> and the empty dictionary are payloads that
  are not lists, so the claimed value is \<open>min(1.0, 1 / 100.0) = 0.01\<close>, but the code
  returns \<open>0.0\<close>.
\<close>

theorem calculate_confidence_falsy_scalar_counterexample:
  "calculate_confidence (PInt 0) = 0.0 \<and>
   min 1.0 (real (spec_sample_size (PInt 0)) / 100.0) = (0.01 :: real) \<and>
   calculate_confidence (PInt 0) \<noteq> min 1.0 (real (spec_sample_size (PInt 0)) / 100.0) \<and>
   calculate_confidence (PDict []) \<noteq> min 1.0 (real (spec_sample_size (PDict [])) / 100.0)"
  by (simp add: calculate_confidence_def spec_sample_size_def)

text \<open>
  Claim C4. The list returned by \<open>generate_improvements\<close> holds the proposals that the
  loop over the patterns collected, in descending order of
  \<open>impact_score(expected_impact) * feasibility_score(implementation_effort)\<close>, with the
  score tables low 0.3, medium 0.6, high 1.0 for impact and low 1.0, medium 0.6,
  high 0.3 for effort; the proposals of any one score are in the order in which they
  were collected.
\<close>

theorem generate_improvements_stable_descending:
  assumes "generate_improvements self patterns st = (Inr ys, st')"
  shows "(\<forall>x. priority x = impact_score (expected_impact x) *
                  feasibility_score (implementation_effort x)) \<and>
         impact_score ''low'' = 0.3 \<and> impact_score ''medium'' = 0.6 \<and>
         impact_score ''high'' = 1.0 \<and>
         feasibility_score ''low'' = 1.0 \<and> feasibility_score ''medium'' = 0.6 \<and>
         feasibility_score ''high'' = 0.3 \<and>
         (\<exists>xs. generate_loop self patterns [] st = (Inr xs, st') \<and>
            sorted_wrt (\<lambda>a b. priority b \<le> priority a) ys \<and>
            mset ys = mset xs \<and>
            (\<forall>k. filter (\<lambda>x. priority x = k) ys = filter (\<lambda>x. priority x = k) xs))"
proof -
  from generate_improvements_sorted[OF assms] obtain xs where
    xs: "generate_loop self patterns [] st = (Inr xs, st')" "ys = sort_reverse priority xs"
    by blast
  have "sorted_wrt (\<lambda>a b. priority b \<le> priority a) ys \<and> mset ys = mset xs \<and>
        (\<forall>k. filter (\<lambda>x. priority x = k) ys = filter (\<lambda>x. priority x = k) xs)"
    unfolding xs(2)
    by (simp add: sorted_sort_reverse mset_sort_reverse stable_sort_reverse)
  with xs(1) show ?thesis
    by (auto simp: priority_def impact_score_def feasibility_score_def dict_get_def)
qed

theorem generate_improvements_stable_descending_witness:
  "generate_improvements ranking_engine
     [\<lparr> pattern_type = ''success_factors'', pattern_data = PNone, confidence = 0.9 \<rparr>]
     initial_state =
     (Inr [proposal PERFORMANCE ''cache'' ''low'' ''high'' ''low'',
           proposal PERFORMANCE ''queue'' ''medium'' ''medium'' ''low'',
           proposal EFFICIENCY ''batch'' ''low'' ''low'' ''low'',
           proposal RELIABILITY ''retry'' ''high'' ''high'' ''medium'',
           proposal COST ''billing'' ''low'' ''urgent'' ''low''],
      \<lparr> world = (), trace = [Call ''generate_success_factor_improvements''] \<rparr>) \<and>
   sorted_wrt (\<lambda>a b. priority b \<le> priority a)
     [proposal PERFORMANCE ''cache'' ''low'' ''high'' ''low'',
           proposal PERFORMANCE ''queue'' ''medium'' ''medium'' ''low'',
           proposal EFFICIENCY ''batch'' ''low'' ''low'' ''low'',
           proposal RELIABILITY ''retry'' ''high'' ''high'' ''medium'',
           proposal COST ''billing'' ''low'' ''urgent'' ''low'']"
proof -
  have h: "generate_improvements ranking_engine
     [\<lparr> pattern_type = ''success_factors'', pattern_data = PNone, confidence = 0.9 \<rparr>]
     initial_state =
     (Inr [proposal PERFORMANCE ''cache'' ''low'' ''high'' ''low'',
           proposal PERFORMANCE ''queue'' ''medium'' ''medium'' ''low'',
           proposal EFFICIENCY ''batch'' ''low'' ''low'' ''low'',
           proposal RELIABILITY ''retry'' ''high'' ''high'' ''medium'',
           proposal COST ''billing'' ''low'' ''urgent'' ''low''],
      \<lparr> world = (), trace = [Call ''generate_success_factor_improvements''] \<rparr>)"
    by (simp add: generate_improvements_def ranking_engine_def example_engine_def
          initial_state_def action_defs sort_reverse_def priority_simps
          impact_score_def feasibility_score_def dict_get_def)
  show ?thesis
    using generate_improvements_stable_descending[OF h] h by blast
qed

text \<open>
  Claim C10. For every label outside low, medium and high, \<open>impact_score\<close> and
  \<open>feasibility_score\<close> return \<open>0.0\<close>. In the list returned by
  \<open>generate_improvements\<close> a proposal with an unrecognized impact or effort label has
  score \<open>0.0\<close> and stands after every proposal whose two labels are recognized.
\<close>

theorem unrecognized_label_scores_zero_and_ranks_last:
  "(\<forall>label. label \<notin> set [''low'', ''medium'', ''high''] \<longrightarrow>
      impact_score label = 0.0 \<and> feasibility_score label = 0.0) \<and>
   (\<forall>(self :: 'w SelfImprovementEngine) patterns st ys st' i j.
      generate_improvements self patterns st = (Inr ys, st') \<and>
      i < length ys \<and> j < length ys \<and>
      (expected_impact (ys ! i) \<notin> set [''low'', ''medium'', ''high''] \<or>
       implementation_effort (ys ! i) \<notin> set [''low'', ''medium'', ''high'']) \<and>
      expected_impact (ys ! j) \<in> set [''low'', ''medium'', ''high''] \<and>
      implementation_effort (ys ! j) \<in> set [''low'', ''medium'', ''high'']
      \<longrightarrow> priority (ys ! i) = 0.0 \<and> j < i)"
proof (intro conjI allI impI)
  fix label :: string
  assume "label \<notin> set [''low'', ''medium'', ''high'']"
  then show "impact_score label = 0.0" "feasibility_score label = 0.0"
    using scores_unknown[of label] by simp_all
next
  fix self :: "'w SelfImprovementEngine" and patterns st ys st' i j
  assume a: "generate_improvements self patterns st = (Inr ys, st') \<and>
      i < length ys \<and> j < length ys \<and>
      (expected_impact (ys ! i) \<notin> set [''low'', ''medium'', ''high''] \<or>
       implementation_effort (ys ! i) \<notin> set [''low'', ''medium'', ''high'']) \<and>
      expected_impact (ys ! j) \<in> set [''low'', ''medium'', ''high''] \<and>
      implementation_effort (ys ! j) \<in> set [''low'', ''medium'', ''high'']"
  from a generate_improvements_sorted obtain xs where "ys = sort_reverse priority xs"
    by blast
  then have s: "sorted_wrt (\<lambda>a b. priority b \<le> priority a) ys"
    by (simp add: sorted_sort_reverse)
  have zero: "priority (ys ! i) = 0"
    using a scores_unknown[of "expected_impact (ys ! i)"]
          scores_unknown[of "implementation_effort (ys ! i)"]
    by (auto simp: priority_def)
  have pos: "0 < priority (ys ! j)"
    using a impact_pos[of "expected_impact (ys ! j)"] feas_pos[of "implementation_effort (ys ! j)"]
    by (simp add: priority_def)
  have "\<not> i < j"
  proof
    assume "i < j"
    with s a have "priority (ys ! j) \<le> priority (ys ! i)"
      by (simp add: sorted_wrt_iff_nth_less)
    with zero pos show False by simp
  qed
  moreover have "i \<noteq> j" using zero pos by auto
  ultimately have "j < i" by simp
  with zero show "priority (ys ! i) = 0.0" "j < i" by simp_all
qed

theorem unrecognized_label_scores_zero_and_ranks_last_witness:
  "impact_score ''urgent'' = 0.0 \<and> feasibility_score ''urgent'' = 0.0 \<and>
   priority (proposal COST ''billing'' ''low'' ''urgent'' ''low'') = 0.0 \<and>
   generate_improvements ranking_engine
     [\<lparr> pattern_type = ''success_factors'', pattern_data = PNone, confidence = 0.9 \<rparr>]
     initial_state =
     (Inr [proposal PERFORMANCE ''cache'' ''low'' ''high'' ''low'',
           proposal PERFORMANCE ''queue'' ''medium'' ''medium'' ''low'',
           proposal EFFICIENCY ''batch'' ''low'' ''low'' ''low'',
           proposal RELIABILITY ''retry'' ''high'' ''high'' ''medium'',
           proposal COST ''billing'' ''low'' ''urgent'' ''low''],
      \<lparr> world = (), trace = [Call ''generate_success_factor_improvements''] \<rparr>)"
proof -
  let ?ys = "[proposal PERFORMANCE ''cache'' ''low'' ''high'' ''low'',
           proposal PERFORMANCE ''queue'' ''medium'' ''medium'' ''low'',
           proposal EFFICIENCY ''batch'' ''low'' ''low'' ''low'',
           proposal RELIABILITY ''retry'' ''high'' ''high'' ''medium'',
           proposal COST ''billing'' ''low'' ''urgent'' ''low'']"
  let ?ps = "[\<lparr> pattern_type = ''success_factors'', pattern_data = PNone, confidence = 0.9 \<rparr>]"
  let ?s = "\<lparr> world = (), trace = [Call ''generate_success_factor_improvements''] \<rparr>"
  note t = unrecognized_label_scores_zero_and_ranks_last[where 'w = unit]
  have h: "generate_improvements ranking_engine ?ps initial_state = (Inr ?ys, ?s)"
    by (simp add: generate_improvements_def ranking_engine_def example_engine_def
          initial_state_def action_defs sort_reverse_def priority_simps
          impact_score_def feasibility_score_def dict_get_def)
  have a: "impact_score ''urgent'' = 0.0 \<and> feasibility_score ''urgent'' = 0.0"
    using t[THEN conjunct1, rule_format, of "''urgent''"] by simp
  have b: "priority (?ys ! 4) = 0.0 \<and> (0::nat) < 4"
    using t[THEN conjunct2, rule_format, of ranking_engine ?ps initial_state ?ys ?s 4 0] h
    by (simp add: proposal_def)
  from a b h show ?thesis by simp
qed

text \<open>
  Claim C2 is not met by the code: \<open>generate_improvements\<close> compares the confidence
  with the literal \<open>0.7\<close> and never reads \<open>confidence_threshold\<close> from the
  configuration. With the threshold configured at 0.9, a pattern of confidence 0.8 is
  below the configured threshold and still yields its proposal.
\<close>

theorem generate_improvements_ignores_configured_threshold:
  "confidence_threshold (config strict_engine) = Some 0.9 \<and>
   confidence \<lparr> pattern_type = ''success_factors'', pattern_data = PNone, confidence = 0.8 \<rparr>
     < (0.9 :: real) \<and>
   fst (generate_improvements strict_engine
      [\<lparr> pattern_type = ''success_factors'', pattern_data = PNone, confidence = 0.8 \<rparr>]
      initial_state) =
     Inr [proposal PERFORMANCE ''cache'' ''low'' ''high'' ''low'']"
  by (simp add: generate_improvements_def strict_engine_def example_engine_def
        SELF_IMPROVEMENT_CONFIG_def initial_state_def action_defs sort_reverse_def)

text \<open>
  Claim C6. When \<open>collect_learning_outcomes\<close> returns, its outcomes correspond one to
  one, in order, to the rows that the store returned, and the \<open>success_score\<close> of each
  outcome is the raw \<open>impact_score\<close> of its row clamped into \<open>[0, 1]\<close>: 1.0 for a raw
  value above 1, 0.0 for a raw value below 0, the raw value otherwise. So every
  outcome built has a success score between 0 and 1.
\<close>

theorem collect_learning_outcomes_clamps_success_score:
  assumes "collect_learning_outcomes self st = (Inr outcomes, st')"
  shows "(\<exists>rows w'. fetch_all_outcomes (db self) (world st) = (Inr rows, w') \<and>
            list_all2 stored_from rows outcomes) \<and>
         (\<forall>out\<in>set outcomes. 0 \<le> success_score out \<and> success_score out \<le> 1) \<and>
         (\<forall>raw. max 0.0 (min 1.0 raw) = spec_clamp raw)"
proof -
  from assms obtain rows w' s1 where
    f: "fetch_all_outcomes (db self) (world st) = (Inr rows, w')" and
    c: "collect_rows self rows [] s1 = (Inr outcomes, st')"
    by (auto simp: collect_learning_outcomes_def bind_a_def call_def
             split: prod.splits sum.splits)
  from collect_rows_stored[OF c] have l: "list_all2 stored_from rows outcomes" by simp
  have "0 \<le> success_score out \<and> success_score out \<le> 1" if "out \<in> set outcomes" for out
  proof -
    from that l obtain row where "stored_from row out"
      by (metis in_set_conv_nth list_all2_conv_all_nth)
    then show ?thesis
      using clamp_range by (auto simp: stored_from_def split: option.splits)
  qed
  moreover have "\<forall>raw. max 0.0 (min 1.0 raw) = spec_clamp raw"
    by (simp add: clamp_eq)
  ultimately show ?thesis using f l by blast
qed

theorem collect_learning_outcomes_clamps_success_score_witness:
  "map success_score (projr (fst (collect_learning_outcomes store_engine initial_state))) =
     [1.0, 0.0, 0.5] \<and>
   list_all2 stored_from
     [outcome_row_of ''p1'' 1.4, outcome_row_of ''p2'' (- 0.2), outcome_row_of ''p3'' 0.5]
     (projr (fst (collect_learning_outcomes store_engine initial_state)))"
proof -
  have "\<exists>outs s. collect_learning_outcomes store_engine initial_state = (Inr outs, s) \<and>
          map success_score outs = [1.0, 0.0, 0.5]"
    by (simp add: collect_learning_outcomes_def get_resource_metrics_def
          get_quality_metrics_def store_engine_def example_engine_def outcome_row_of_def
          initial_state_def action_defs)
  then obtain outs s where
    h: "collect_learning_outcomes store_engine initial_state = (Inr outs, s)" and
    m: "map success_score outs = [1.0, 0.0, 0.5]" by (elim exE conjE)
  have f: "fetch_all_outcomes (db store_engine) (world initial_state) =
      (Inr [outcome_row_of ''p1'' 1.4, outcome_row_of ''p2'' (- 0.2),
            outcome_row_of ''p3'' 0.5], ())"
    by (simp add: store_engine_def example_engine_def succeed_def)
  show ?thesis
    using collect_learning_outcomes_clamps_success_score[OF h] h m f by auto
qed

text \<open>
  Claim C7. No exception (an instance of \<open>Exception\<close>) raised in a cycle ever ends
  \<open>continuous_learning_loop\<close>, for any number of iterations. When the \<open>try\<close> block of
  an iteration raises one, the iteration returns normally from the state in which the
  exception was raised, with an error record and a sleep of 60 seconds added; no
  normal sleep was taken in that cycle, since no stage ran after the failure; and the loop
  goes on with its next iteration. Every iteration starts with the query of the
  collection stage. A cycle without a failure ends with a sleep of the configured
  learning interval, which is 300 seconds by default, more than the 60 seconds of
  recovery.
\<close>

theorem continuous_learning_loop_recovers:
  "(\<forall>n (self :: 'w SelfImprovementEngine) st m.
      fst (continuous_learning_loop n self st) \<noteq> Some (Exception m)) \<and>
   (\<forall>(self :: 'w SelfImprovementEngine) st m st1.
      cycle_body self st = (Inl (Exception m), st1) \<longrightarrow>
        loop_iteration self st =
          (Inr (), st1\<lparr>trace := trace st1 @
             [LogError (''Error in continuous learning loop: '' @ m), Sleep 60]\<rparr>) \<and>
        \<not> list_ex is_sleep (new_events st st1) \<and>
        (\<forall>n. while_true (Suc n) self st =
               while_true n self (st1\<lparr>trace := trace st1 @
                 [LogError (''Error in continuous learning loop: '' @ m), Sleep 60]\<rparr>))) \<and>
   (\<forall>(self :: 'w SelfImprovementEngine) st.
      \<exists>evs. trace (snd (loop_iteration self st)) = trace st @ Call ''db.fetch_all'' # evs) \<and>
   (\<forall>(self :: 'w SelfImprovementEngine) st st1.
      cycle_body self st = (Inr (), st1) \<longrightarrow>
        loop_iteration self st = (Inr (), st1) \<and>
        last (trace st1) = Sleep (config_get_learning_interval (config self))) \<and>
   (\<forall>c :: config. learning_interval c = None \<longrightarrow> config_get_learning_interval c = 300) \<and>
   config_get_learning_interval SELF_IMPROVEMENT_CONFIG = 300 \<and>
   (60 :: real) < 300"
proof (intro conjI allI impI)
  fix n and self :: "'w SelfImprovementEngine" and st m
  show "fst (continuous_learning_loop n self st) \<noteq> Some (Exception m)"
    using while_true_no_Exception[of n self _ m]
    by (simp add: continuous_learning_loop_def logger_info_def emit_def)
next
  fix self :: "'w SelfImprovementEngine" and st m st1
  assume c: "cycle_body self st = (Inl (Exception m), st1)"
  show i: "loop_iteration self st =
          (Inr (), st1\<lparr>trace := trace st1 @
             [LogError (''Error in continuous learning loop: '' @ m), Sleep 60]\<rparr>)"
    using c by (simp add: loop_iteration_def try_except_def bind_a_def logger_error_def
                  asyncio_sleep_def emit_def)
  from emitsD[OF emits_stages cycle_body_failure[OF c]] obtain evs where
    "trace st1 = trace st @ evs" "list_all (\<lambda>ev. \<not> is_sleep ev) evs" by blast
  then show "\<not> list_ex is_sleep (new_events st st1)"
    by (simp add: new_events_def list_all_iff list_ex_iff)
  fix n
  show "while_true (Suc n) self st =
               while_true n self (st1\<lparr>trace := trace st1 @
                 [LogError (''Error in continuous learning loop: '' @ m), Sleep 60]\<rparr>)"
    using i by simp
next
  fix self :: "'w SelfImprovementEngine" and st
  show "\<exists>evs. trace (snd (loop_iteration self st)) = trace st @ Call ''db.fetch_all'' # evs"
    by (rule loop_iteration_first)
next
  fix self :: "'w SelfImprovementEngine" and st st1
  assume c: "cycle_body self st = (Inr (), st1)"
  show "loop_iteration self st = (Inr (), st1)"
    using c by (simp add: loop_iteration_def try_except_def)
  from cycle_body_success[OF c] show
    "last (trace st1) = Sleep (config_get_learning_interval (config self))"
    by auto
next
  fix c :: config assume "learning_interval c = None"
  then show "config_get_learning_interval c = 300"
    by (simp add: config_get_learning_interval_def)
next
  show "config_get_learning_interval SELF_IMPROVEMENT_CONFIG = 300"
    by (simp add: config_get_learning_interval_def SELF_IMPROVEMENT_CONFIG_def)
qed simp

theorem continuous_learning_loop_recovers_witness:
  "continuous_learning_loop 2 outage_engine initial_state =
     (None, \<lparr> world = (), trace =
        [LogInfo ''Starting continuous learning loop'',
         Call ''db.fetch_all'',
         LogError ''Error in continuous learning loop: store timeout'', Sleep 60,
         Call ''db.fetch_all'',
         LogError ''Error in continuous learning loop: store timeout'', Sleep 60] \<rparr>) \<and>
   loop_iteration outage_engine initial_state =
     (Inr (), \<lparr> world = (), trace =
        [Call ''db.fetch_all'',
         LogError ''Error in continuous learning loop: store timeout'', Sleep 60] \<rparr>) \<and>
   loop_iteration example_engine initial_state =
     (Inr (), \<lparr> world = (), trace =
        [Call ''db.fetch_all'', Call ''system_health_check'', Sleep 300] \<rparr>)"
proof -
  note t = continuous_learning_loop_recovers[where 'w = unit]
  let ?s1 = "\<lparr> world = (), trace = [Call ''db.fetch_all''] \<rparr>"
  have c: "cycle_body outage_engine initial_state = (Inl (Exception ''store timeout''), ?s1)"
    by (simp add: cycle_body_def collect_learning_outcomes_def outage_engine_def
          example_engine_def initial_state_def action_defs)
  have ok: "cycle_body example_engine initial_state =
      (Inr (), \<lparr> world = (), trace =
        [Call ''db.fetch_all'', Call ''system_health_check'', Sleep 300] \<rparr>)"
    by (simp add: cycle_body_def collect_learning_outcomes_def analyze_patterns_def
          generate_improvements_def update_learning_models_def sort_reverse_def
          config_get_learning_interval_def SELF_IMPROVEMENT_CONFIG_def
          example_engine_def initial_state_def action_defs)
  have i: "loop_iteration outage_engine initial_state =
     (Inr (), \<lparr> world = (), trace =
        [Call ''db.fetch_all'',
         LogError ''Error in continuous learning loop: store timeout'', Sleep 60] \<rparr>)"
    using t[THEN conjunct2, THEN conjunct1, rule_format, OF c] by simp
  have j: "loop_iteration example_engine initial_state =
     (Inr (), \<lparr> world = (), trace =
        [Call ''db.fetch_all'', Call ''system_health_check'', Sleep 300] \<rparr>)"
    using t[THEN conjunct2, THEN conjunct2, THEN conjunct2, THEN conjunct1, rule_format, OF ok]
    by simp
  have l: "continuous_learning_loop 2 outage_engine initial_state =
     (None, \<lparr> world = (), trace =
        [LogInfo ''Starting continuous learning loop'',
         Call ''db.fetch_all'',
         LogError ''Error in continuous learning loop: store timeout'', Sleep 60,
         Call ''db.fetch_all'',
         LogError ''Error in continuous learning loop: store timeout'', Sleep 60] \<rparr>)"
    by (simp add: continuous_learning_loop_def numeral_2_eq_2 loop_iteration_def cycle_body_def
          collect_learning_outcomes_def outage_engine_def
          example_engine_def initial_state_def action_defs)
  from i j l show ?thesis by simp
qed

end
